theory Spec2Isabelle
  imports Complex_Main "HOL-Library.AList" "HOL-Library.Log_Nat"
begin

section \<open>JavaScript values used by the playground\<close>

text \<open>
  A JavaScript \<open>number\<close> that the code stores, compares or passes on is modelled by an
  exact rational: every finite double is one. Where the code divides and multiplies
  (\<open>calculateDimensions\<close>), the values are of the type \<open>double\<close> below, whose operations
  round as IEEE 754 double arithmetic does.
  A value of type \<open>'inherit' | number\<close> is a \<open>dimension\<close>; an optional value
  (\<open>x?: T\<close>, \<open>T | null\<close>, \<open>T | undefined\<close>) is an \<open>option\<close>, with \<open>None\<close> for
  \<open>undefined\<close> or \<open>null\<close>.
\<close>

type_synonym number = rat

datatype dimension = Inherit | Num number

text \<open>\<open>x || 'inherit'\<close> for \<open>x?: 'inherit' | number\<close>: \<open>undefined\<close> and \<open>0\<close> are falsy.\<close>

fun or_inherit :: "dimension option \<Rightarrow> dimension" where
  "or_inherit None = Inherit"
| "or_inherit (Some Inherit) = Inherit"
| "or_inherit (Some (Num x)) = (if x = 0 then Inherit else Num x)"

text \<open>\<open>b || false\<close> for \<open>b?: boolean\<close>.\<close>

fun or_false :: "bool option \<Rightarrow> bool" where
  "or_false None = False"
| "or_false (Some b) = b"

text \<open>\<open>s || ''\<close> for \<open>s?: string\<close>: \<open>undefined\<close> and the empty string are falsy.\<close>

fun or_empty :: "string option \<Rightarrow> string" where
  "or_empty None = []"
| "or_empty (Some s) = s"

text \<open>Truthiness of a \<open>string | null\<close>, as tested by \<open>if (s)\<close> and \<open>!s\<close>.\<close>

fun truthy :: "string option \<Rightarrow> bool" where
  "truthy None = False"
| "truthy (Some s) = (s \<noteq> [])"

definition startsWith :: "string \<Rightarrow> string \<Rightarrow> bool" where
  "startsWith s p = (take (length p) s = p)"

definition endsWith :: "string \<Rightarrow> string \<Rightarrow> bool" where
  "endsWith s p = (length p \<le> length s \<and> drop (length s - length p) s = p)"

text \<open>\<open>String.prototype.toLowerCase\<close> on the characters of a byte string: the letters
  \<open>A\<close> to \<open>Z\<close> move to \<open>a\<close> to \<open>z\<close>, every other character stays.\<close>

definition lower_char :: "char \<Rightarrow> char" where
  "lower_char c =
     (if 65 \<le> (of_char c :: nat) \<and> (of_char c :: nat) \<le> 90
      then char_of ((of_char c :: nat) + 32) else c)"

definition toLowerCase :: "string \<Rightarrow> string" where
  "toLowerCase s = map lower_char s"

section \<open>Double arithmetic\<close>

text \<open>
  The values of IEEE 754 double arithmetic: the finite doubles, as rationals, the two
  infinities and NaN. A zero has no sign here: \<open>-0\<close> is \<open>Finite 0\<close>, which no comparison
  of the code tells from \<open>0\<close>.
\<close>

datatype double = Finite rat | PosInfinity | NegInfinity | NaN

text \<open>\<open>floor_log2 x\<close> is the exponent of a positive \<open>x\<close>: the integer \<open>e\<close> with
  \<open>2\<^sup>e \<le> x < 2\<^sup>e\<^sup>+\<^sup>1\<close>, found from the number of bits (\<open>bitlen\<close>) of the integer part of
  \<open>x\<close> or of \<open>1 / x\<close>.\<close>

definition floor_log2 :: "rat \<Rightarrow> int" where
  "floor_log2 x =
     (if 1 \<le> x then bitlen \<lfloor>x\<rfloor> - 1 else - bitlen (\<lceil>1 / x\<rceil> - 1))"

text \<open>The nearest integer, a tie going to the even one.\<close>

definition round_half_even :: "rat \<Rightarrow> int" where
  "round_half_even x =
     (let f = \<lfloor>x\<rfloor>; r = x - of_int f
      in if r < 1 / 2 then f
         else if 1 / 2 < r then f + 1
         else if even f then f else f + 1)"

text \<open>
  The double nearest to an exact result, ties to even: the result is rounded to a multiple
  of \<open>2\<^sup>q\<close>, where \<open>q\<close> leaves 53 bits above it and is at least \<open>-1074\<close> (the subnormal
  numbers); a magnitude that reaches \<open>2\<^sup>1\<^sup>0\<^sup>2\<^sup>4\<close> overflows to an infinity.
\<close>

definition overflow_threshold :: rat where
  "overflow_threshold = 2 ^ 1024"

definition round_double :: "rat \<Rightarrow> double" where
  "round_double x =
     (if x = 0 then Finite 0
      else
        let a = \<bar>x\<bar>;
            q = max (floor_log2 a) (- 1022) - 52;
            v = of_int (round_half_even (a / 2 powi q)) * 2 powi q
        in if overflow_threshold \<le> v then (if 0 < x then PosInfinity else NegInfinity)
           else Finite (if 0 < x then v else - v))"

text \<open>The sign of a value, and its negation.\<close>

fun dsgn :: "double \<Rightarrow> int" where
  "dsgn (Finite x) = (if 0 < x then 1 else if x < 0 then - 1 else 0)"
| "dsgn PosInfinity = 1"
| "dsgn NegInfinity = - 1"
| "dsgn NaN = 0"

fun dneg :: "double \<Rightarrow> double" where
  "dneg (Finite x) = Finite (- x)"
| "dneg PosInfinity = NegInfinity"
| "dneg NegInfinity = PosInfinity"
| "dneg NaN = NaN"

text \<open>\<open>a * b\<close>.\<close>

fun dmul :: "double \<Rightarrow> double \<Rightarrow> double" where
  "dmul (Finite x) (Finite y) = round_double (x * y)"
| "dmul NaN b = NaN"
| "dmul a NaN = NaN"
| "dmul a b =
     (if dsgn a * dsgn b = 0 then NaN
      else if 0 < dsgn a * dsgn b then PosInfinity else NegInfinity)"

text \<open>\<open>a / b\<close>. A divisor that is zero is taken as \<open>+0\<close>; the code divides by no zero.\<close>

fun ddiv :: "double \<Rightarrow> double \<Rightarrow> double" where
  "ddiv (Finite x) (Finite y) =
     (if y = 0 then (if x = 0 then NaN else if 0 < x then PosInfinity else NegInfinity)
      else round_double (x / y))"
| "ddiv NaN b = NaN"
| "ddiv a NaN = NaN"
| "ddiv (Finite x) b = Finite 0"
| "ddiv a (Finite y) = (if 0 \<le> y then a else dneg a)"
| "ddiv a b = NaN"

text \<open>\<open>a > b\<close> and \<open>a <= b\<close>; both are false when an operand is NaN.\<close>

fun dgt :: "double \<Rightarrow> double \<Rightarrow> bool" where
  "dgt (Finite x) (Finite y) = (y < x)"
| "dgt NaN b = False"
| "dgt a NaN = False"
| "dgt PosInfinity PosInfinity = False"
| "dgt PosInfinity b = True"
| "dgt a PosInfinity = False"
| "dgt NegInfinity b = False"
| "dgt a NegInfinity = True"

fun dle :: "double \<Rightarrow> double \<Rightarrow> bool" where
  "dle (Finite x) (Finite y) = (x \<le> y)"
| "dle NaN b = False"
| "dle a NaN = False"
| "dle NegInfinity b = True"
| "dle a PosInfinity = True"
| "dle a b = False"

text \<open>\<open>Math.round\<close>: the nearest integer, a half going up; an infinity and NaN stay.\<close>

fun Math_round :: "double \<Rightarrow> double" where
  "Math_round (Finite x) = Finite (of_int \<lfloor>x + 1 / 2\<rfloor>)"
| "Math_round d = d"

section \<open>The framework, as far as the image node calls it\<close>

text \<open>
  The editor framework (\<open>lexical\<close>) is not part of the sources; the functions of it that
  \<open>ImageNode\<close> calls are parameters, gathered in one record. \<open>'e\<close> is \<open>LexicalEditor\<close>,
  \<open>'s\<close> is \<open>SerializedEditor\<close>, \<open>'st\<close> is \<open>EditorState\<close>.
\<close>

record ('e, 's, 'st) lexical =
  createEditor :: "'e"
    \<comment> \<open>\<open>createEditor({namespace: 'Playground/ImageNodeCaption', nodes: [...]})\<close>\<close>
  setNodeKey :: "string option \<Rightarrow> string"
    \<comment> \<open>\<open>super(key)\<close>: the given key, or a generated one\<close>
  editor_toJSON :: "'e \<Rightarrow> 's"
  parseEditorState :: "'e \<Rightarrow> 's \<Rightarrow> 'st"
    \<comment> \<open>\<open>nestedEditor.parseEditorState(caption.editorState)\<close>\<close>
  isEmpty :: "'st \<Rightarrow> bool"
  setEditorState :: "'e \<Rightarrow> 'st \<Rightarrow> 'e"

section \<open>ImageNode.tsx\<close>

record ImagePayload_base =
  pl_altText :: string
  pl_height :: "number option"
  pl_key :: "string option"
  pl_maxWidth :: "number option"
  pl_showCaption :: "bool option"
  pl_imgRounded :: "bool option"
  pl_imgZoomable :: "bool option"
  pl_src :: string
  pl_width :: "number option"
  pl_captionsEnabled :: "bool option"
  pl_title :: "string option"
  pl_className :: "string option"

record 'e ImagePayload = ImagePayload_base +
  pl_caption :: "'e option"

text \<open>The fields of \<open>class ImageNode\<close>; \<open>n__key\<close> is the \<open>__key\<close> of \<open>LexicalNode\<close>.\<close>

record 'e ImageNode =
  n__src :: string
  n__altText :: string
  n__width :: dimension
  n__height :: dimension
  n__maxWidth :: number
  n__showCaption :: bool
  n__imgRounded :: bool
  n__imgZoomable :: bool
  n__caption :: "'e"
  n__captionsEnabled :: bool
  n__title :: "string option"
  n__className :: "string option"
  n__key :: string

text \<open>The constructor, in the order of its parameters.\<close>

definition new_ImageNode ::
  "('e, 's, 'st) lexical \<Rightarrow> string \<Rightarrow> string \<Rightarrow> number \<Rightarrow> dimension option \<Rightarrow>
   dimension option \<Rightarrow> bool option \<Rightarrow> bool option \<Rightarrow> bool option \<Rightarrow> 'e option \<Rightarrow>
   bool option \<Rightarrow> string option \<Rightarrow> string option \<Rightarrow> string option \<Rightarrow> 'e ImageNode" where
  "new_ImageNode fw src altText maxWidth width height showCaption imgRounded imgZoomable
     caption captionsEnabled key title className =
     \<lparr> n__src = src,
       n__altText = altText,
       n__width = or_inherit width,
       n__height = or_inherit height,
       n__maxWidth = maxWidth,
       n__showCaption = or_false showCaption,
       n__imgRounded = or_false imgRounded,
       n__imgZoomable = or_false imgZoomable,
       n__caption = (case caption of Some c \<Rightarrow> c | None \<Rightarrow> createEditor fw),
       n__captionsEnabled = (case captionsEnabled of Some b \<Rightarrow> b | None \<Rightarrow> True),
       n__title = title,
       n__className = className,
       n__key = setNodeKey fw key \<rparr>"

subsection \<open>decorate\<close>

record 'e ImageComponentProps =
  pr_src :: string
  pr_altText :: string
  pr_width :: dimension
  pr_height :: dimension
  pr_maxWidth :: number
  pr_nodeKey :: string
  pr_showCaption :: bool
  pr_imgRounded :: bool
  pr_imgZoomable :: bool
  pr_caption :: "'e"
  pr_captionsEnabled :: bool
  pr_title :: "string option"
  pr_className :: "string option"
  pr_resizable :: bool

text \<open>A JSX element: the component and its props.\<close>

datatype 'e jsx = ImageComponent_element "'e ImageComponentProps"

definition getKey :: "'e ImageNode \<Rightarrow> string" where
  "getKey this = n__key this"

definition decorate :: "'e ImageNode \<Rightarrow> 'e jsx" where
  "decorate this =
     ImageComponent_element
       \<lparr> pr_src = n__src this,
         pr_altText = n__altText this,
         pr_width = n__width this,
         pr_height = n__height this,
         pr_maxWidth = n__maxWidth this,
         pr_nodeKey = getKey this,
         pr_showCaption = n__showCaption this,
         pr_imgRounded = n__imgRounded this,
         pr_imgZoomable = n__imgZoomable this,
         pr_caption = n__caption this,
         pr_captionsEnabled = n__captionsEnabled this,
         pr_title = n__title this,
         pr_className = n__className this,
         pr_resizable = True \<rparr>"

subsection \<open>exportDOM\<close>

text \<open>A DOM element built by the code: its name and its attributes, as set by
  \<open>setAttribute\<close> (a later value for a name replaces the earlier one).\<close>

record Element =
  localName :: string
  attributes :: "(string \<times> string) list"

definition createElement :: "string \<Rightarrow> Element" where
  "createElement tag = \<lparr> localName = tag, attributes = [] \<rparr>"

definition setAttribute :: "Element \<Rightarrow> string \<Rightarrow> string \<Rightarrow> Element" where
  "setAttribute el name v = el \<lparr> attributes := AList.update name v (attributes el) \<rparr>"

definition getAttribute :: "Element \<Rightarrow> string \<Rightarrow> string option" where
  "getAttribute el name = map_of (attributes el) name"

text \<open>\<open>toString()\<close> of an \<open>'inherit' | number\<close>; \<open>Number.prototype.toString\<close> is a
  parameter.\<close>

fun dimension_toString :: "(number \<Rightarrow> string) \<Rightarrow> dimension \<Rightarrow> string" where
  "dimension_toString numberToString Inherit = ''inherit''"
| "dimension_toString numberToString (Num x) = numberToString x"

record DOMExportOutput =
  dx_element :: Element

definition exportDOM :: "(number \<Rightarrow> string) \<Rightarrow> 'e ImageNode \<Rightarrow> DOMExportOutput" where
  "exportDOM numberToString this =
     (let element = createElement ''img'';
          element = setAttribute element ''src'' (n__src this);
          element = setAttribute element ''alt'' (n__altText this);
          element = setAttribute element ''width'' (dimension_toString numberToString (n__width this));
          element = setAttribute element ''height'' (dimension_toString numberToString (n__height this));
          element = setAttribute element ''title'' (or_empty (n__title this));
          element = setAttribute element ''class'' (or_empty (n__className this));
          element = setAttribute element ''data-rounded'' (if n__imgRounded this then ''1'' else ''0'');
          element = setAttribute element ''data-zoomable'' (if n__imgZoomable this then ''1'' else ''0'')
      in \<lparr> dx_element = element \<rparr>)"

subsection \<open>The mutators\<close>

text \<open>\<open>getWritable\<close> is the framework's (\<open>LexicalNode.getWritable\<close>); it is a parameter.
  Each mutator returns the writable node as it leaves it.\<close>

definition setWidthAndHeight ::
  "('e ImageNode \<Rightarrow> 'e ImageNode) \<Rightarrow> 'e ImageNode \<Rightarrow> dimension \<Rightarrow> dimension \<Rightarrow> 'e ImageNode" where
  "setWidthAndHeight getWritable this width height =
     (let writable = getWritable this;
          writable = writable \<lparr> n__width := width \<rparr>;
          writable = writable \<lparr> n__height := height \<rparr>
      in writable)"

definition setShowCaption ::
  "('e ImageNode \<Rightarrow> 'e ImageNode) \<Rightarrow> 'e ImageNode \<Rightarrow> bool \<Rightarrow> 'e ImageNode" where
  "setShowCaption getWritable this showCaption =
     (let writable = getWritable this in writable \<lparr> n__showCaption := showCaption \<rparr>)"

definition setImgRounded ::
  "('e ImageNode \<Rightarrow> 'e ImageNode) \<Rightarrow> 'e ImageNode \<Rightarrow> bool \<Rightarrow> 'e ImageNode" where
  "setImgRounded getWritable this imgRounded =
     (let writable = getWritable this in writable \<lparr> n__imgRounded := imgRounded \<rparr>)"

definition setImgZoomable ::
  "('e ImageNode \<Rightarrow> 'e ImageNode) \<Rightarrow> 'e ImageNode \<Rightarrow> bool \<Rightarrow> 'e ImageNode" where
  "setImgZoomable getWritable this imgZoomable =
     (let writable = getWritable this in writable \<lparr> n__imgZoomable := imgZoomable \<rparr>)"

subsection \<open>createImageNode, exportJSON, importJSON\<close>

text \<open>\<open>$createImageNode\<close>: \<open>maxWidth\<close> defaults to 500 when the payload has none;
  \<open>$applyNodeReplacement\<close> is the framework's and a parameter.\<close>

definition createImageNode ::
  "('e, 's, 'st) lexical \<Rightarrow> ('e ImageNode \<Rightarrow> 'e ImageNode) \<Rightarrow> 'e ImagePayload \<Rightarrow> 'e ImageNode" where
  "createImageNode fw applyNodeReplacement p =
     applyNodeReplacement
       (new_ImageNode fw (pl_src p) (pl_altText p)
          (case pl_maxWidth p of None \<Rightarrow> 500 | Some m \<Rightarrow> m)
          (map_option Num (pl_width p)) (map_option Num (pl_height p))
          (pl_showCaption p) (pl_imgRounded p) (pl_imgZoomable p) (pl_caption p)
          (pl_captionsEnabled p) (pl_key p) (pl_title p) (pl_className p))"

text \<open>\<open>SerializedImageNode\<close>; \<open>js_base\<close> holds the fields spread from
  \<open>super.exportJSON()\<close>.\<close>

record ('s, 'b) SerializedImageNode =
  js_base :: "'b"
  js_altText :: string
  js_caption :: "'s"
  js_height :: "number option"
  js_maxWidth :: number
  js_showCaption :: bool
  js_imgRounded :: bool
  js_imgZoomable :: bool
  js_src :: string
  js_width :: "number option"
  js_title :: string
  js_className :: string

definition getSrc :: "'e ImageNode \<Rightarrow> string" where
  "getSrc this = n__src this"

definition getAltText :: "'e ImageNode \<Rightarrow> string" where
  "getAltText this = n__altText this"

definition exportJSON ::
  "('e, 's, 'st) lexical \<Rightarrow> ('e ImageNode \<Rightarrow> 'b) \<Rightarrow> 'e ImageNode \<Rightarrow> ('s, 'b) SerializedImageNode" where
  "exportJSON fw super_exportJSON this =
     \<lparr> js_base = super_exportJSON this,
       js_altText = getAltText this,
       js_caption = editor_toJSON fw (n__caption this),
       js_height = Some (case n__height this of Inherit \<Rightarrow> 0 | Num x \<Rightarrow> x),
       js_maxWidth = n__maxWidth this,
       js_showCaption = n__showCaption this,
       js_imgRounded = n__imgRounded this,
       js_imgZoomable = n__imgZoomable this,
       js_src = getSrc this,
       js_width = Some (case n__width this of Inherit \<Rightarrow> 0 | Num x \<Rightarrow> x),
       js_title = or_empty (n__title this),
       js_className = or_empty (n__className this) \<rparr>"

definition updateFromJSON ::
  "('e, 's, 'st) lexical \<Rightarrow> ('e ImageNode \<Rightarrow> ('s, 'b) SerializedImageNode \<Rightarrow> 'e ImageNode) \<Rightarrow>
   'e ImageNode \<Rightarrow> ('s, 'b) SerializedImageNode \<Rightarrow> 'e ImageNode" where
  "updateFromJSON fw super_updateFromJSON this serializedNode =
     (let node = super_updateFromJSON this serializedNode;
          caption = js_caption serializedNode;
          nestedEditor = n__caption node;
          editorState = parseEditorState fw nestedEditor caption
      in if isEmpty fw editorState then node
         else node \<lparr> n__caption := setEditorState fw nestedEditor editorState \<rparr>)"

definition importJSON ::
  "('e, 's, 'st) lexical \<Rightarrow> ('e ImageNode \<Rightarrow> 'e ImageNode) \<Rightarrow>
   ('e ImageNode \<Rightarrow> ('s, 'b) SerializedImageNode \<Rightarrow> 'e ImageNode) \<Rightarrow>
   ('s, 'b) SerializedImageNode \<Rightarrow> 'e ImageNode" where
  "importJSON fw applyNodeReplacement super_updateFromJSON serializedNode =
     updateFromJSON fw super_updateFromJSON
       (createImageNode fw applyNodeReplacement
          \<lparr> pl_altText = js_altText serializedNode,
            pl_height = js_height serializedNode,
            pl_key = None,
            pl_maxWidth = Some (js_maxWidth serializedNode),
            pl_showCaption = Some (js_showCaption serializedNode),
            pl_imgRounded = Some (js_imgRounded serializedNode),
            pl_imgZoomable = Some (js_imgZoomable serializedNode),
            pl_src = js_src serializedNode,
            pl_width = js_width serializedNode,
            pl_captionsEnabled = None,
            pl_title = Some (js_title serializedNode),
            pl_className = Some (js_className serializedNode),
            pl_caption = None \<rparr>)
       serializedNode"

subsection \<open>Import from the DOM\<close>

text \<open>What the code reads of an \<open>HTMLImageElement\<close>: the properties \<open>src\<close>, \<open>alt\<close>,
  \<open>width\<close>, \<open>height\<close> (unsigned integers) and \<open>className\<close>, the \<open>tagName\<close> of its parent
  element (\<open>None\<close> when \<open>parentElement\<close> is \<open>null\<close>), the node name of its previous sibling
  (\<open>None\<close> when \<open>previousSibling\<close> is \<open>null\<close>) and its attributes.\<close>

record HTMLImageElement =
  img_src :: string
  img_alt :: string
  img_width :: nat
  img_height :: nat
  img_className :: string
  img_parentElement :: "string option"
  img_previousSibling :: "string option"
  img_attributes :: "(string \<times> string) list"

definition isGoogleDocCheckboxImg :: "HTMLImageElement \<Rightarrow> bool" where
  "isGoogleDocCheckboxImg img =
     (img_parentElement img \<noteq> None
      \<and> img_parentElement img = Some ''LI''
      \<and> img_previousSibling img = None
      \<and> map_of (img_attributes img) ''aria-roledescription'' = Some ''checkbox'')"

record 'e DOMConversionOutput =
  dco_node :: "'e ImageNode"

definition convertImageElement ::
  "('e, 's, 'st) lexical \<Rightarrow> ('e ImageNode \<Rightarrow> 'e ImageNode) \<Rightarrow> HTMLImageElement \<Rightarrow>
   'e DOMConversionOutput option" where
  "convertImageElement fw applyNodeReplacement img =
     (if startsWith (img_src img) ''file:///'' \<or> isGoogleDocCheckboxImg img then None
      else
        let node = createImageNode fw applyNodeReplacement
              \<lparr> pl_altText = img_alt img,
                pl_height = Some (of_nat (img_height img)),
                pl_key = None,
                pl_maxWidth = None,
                pl_showCaption = None,
                pl_imgRounded = None,
                pl_imgZoomable = None,
                pl_src = img_src img,
                pl_width = Some (of_nat (img_width img)),
                pl_captionsEnabled = None,
                pl_title = None,
                pl_className = Some (img_className img),
                pl_caption = None \<rparr>
        in Some \<lparr> dco_node = node \<rparr>)"

section \<open>App.tsx\<close>

subsection \<open>Query parameters and local storage\<close>

text \<open>\<open>URLSearchParams\<close> is the list of the name-value pairs of the query string;
  \<open>get\<close> returns the first value of a name, or \<open>null\<close>.\<close>

type_synonym URLSearchParams = "(string \<times> string) list"

definition params_get :: "URLSearchParams \<Rightarrow> string \<Rightarrow> string option" where
  "params_get params name = map_of params name"

definition storageKey :: "URLSearchParams \<Rightarrow> string option" where
  "storageKey params = params_get params ''storageKey''"

definition htmlStorageKey :: "URLSearchParams \<Rightarrow> string option" where
  "htmlStorageKey params = params_get params ''htmlStorageKey''"

text \<open>\<open>window.localStorage\<close> is a map from keys to values. A key that is \<open>null\<close> is
  converted to the string \<open>"null"\<close>, as the DOM does for a \<open>DOMString\<close> argument.\<close>

type_synonym Storage = "string \<rightharpoonup> string"

fun toDOMString :: "string option \<Rightarrow> string" where
  "toDOMString None = ''null''"
| "toDOMString (Some s) = s"

definition getItem :: "Storage \<Rightarrow> string option \<Rightarrow> string option" where
  "getItem localStorage key = localStorage (toDOMString key)"

definition setItem :: "Storage \<Rightarrow> string option \<Rightarrow> string \<Rightarrow> Storage" where
  "setItem localStorage key v = localStorage (toDOMString key \<mapsto> v)"

text \<open>\<open>!s\<close> and \<open>typeof s\<close> for \<open>s: string | null\<close>.\<close>

fun falsy :: "string option \<Rightarrow> bool" where
  "falsy None = True"
| "falsy (Some s) = (s = [])"

fun typeof :: "string option \<Rightarrow> string" where
  "typeof None = ''object''"
| "typeof (Some s) = ''string''"

definition dataFromStorage :: "URLSearchParams \<Rightarrow> Storage \<Rightarrow> string option" where
  "dataFromStorage params localStorage =
     (let dataFromStorage = getItem localStorage (storageKey params)
      in if falsy dataFromStorage \<or> typeof dataFromStorage = ''undefined''
            \<or> dataFromStorage = Some ''undefined''
         then None else dataFromStorage)"

subsection \<open>The editor configuration\<close>

text \<open>\<open>onError\<close> writes to the console and throws: the result is the console and
  \<open>Inl\<close> of the thrown value.\<close>

datatype 'err console_entry = console_error string 'err

definition onError ::
  "'err \<Rightarrow> 'err console_entry list \<Rightarrow> 'err console_entry list \<times> ('err + unit)" where
  "onError error console = (console @ [console_error ''error'' error], Inl error)"

text \<open>\<open>initialConfig\<close>, without its \<open>html\<close>, \<open>nodes\<close>, \<open>theme\<close> (imported values) and
  \<open>onError\<close> (above).\<close>

record initialConfig =
  cfg_editorState :: "string option"
  cfg_namespace :: string
  cfg_showTreeView :: bool

definition initialConfig :: "URLSearchParams \<Rightarrow> Storage \<Rightarrow> initialConfig" where
  "initialConfig params localStorage =
     \<lparr> cfg_editorState = dataFromStorage params localStorage,
       cfg_namespace = ''Playground'',
       cfg_showTreeView = False \<rparr>"

subsection \<open>OnChangePlugin and the two handlers of App\<close>

text \<open>The listener registered by \<open>OnChangePlugin\<close>. \<open>$generateHtmlFromNodes(editor)\<close>,
  called inside \<open>editorState.read\<close>, and \<open>JSON.stringify(editorState.toJSON())\<close> are the
  framework's: two parameters, functions of the editor state. A handler is a function
  from its string and the storage to the new storage; the HTML handler runs first.\<close>

definition updateListener ::
  "('est \<Rightarrow> string) \<Rightarrow> ('est \<Rightarrow> string) \<Rightarrow> (string \<Rightarrow> Storage \<Rightarrow> Storage) option \<Rightarrow>
   (string \<Rightarrow> Storage \<Rightarrow> Storage) option \<Rightarrow> 'est \<Rightarrow> Storage \<Rightarrow> Storage" where
  "updateListener generateHtmlFromNodes stringify_toJSON onHtmlChange onStateChange
     editorState localStorage =
     (let localStorage =
            (case onHtmlChange of
               Some f \<Rightarrow> (let htmlString = generateHtmlFromNodes editorState
                         in f htmlString localStorage)
             | None \<Rightarrow> localStorage);
          localStorage =
            (case onStateChange of
               Some g \<Rightarrow> (let jsonString = stringify_toJSON editorState
                         in g jsonString localStorage)
             | None \<Rightarrow> localStorage)
      in localStorage)"

definition App_onHtmlChange :: "URLSearchParams \<Rightarrow> string \<Rightarrow> Storage \<Rightarrow> Storage" where
  "App_onHtmlChange params html localStorage =
     (if truthy (htmlStorageKey params)
      then setItem localStorage (htmlStorageKey params) html else localStorage)"

definition App_onStateChange :: "URLSearchParams \<Rightarrow> string \<Rightarrow> Storage \<Rightarrow> Storage" where
  "App_onStateChange params jsonString localStorage =
     (if truthy (storageKey params)
      then setItem localStorage (storageKey params) jsonString else localStorage)"

text \<open>The listener as \<open>App\<close> mounts it.\<close>

definition App_updateListener ::
  "URLSearchParams \<Rightarrow> ('est \<Rightarrow> string) \<Rightarrow> ('est \<Rightarrow> string) \<Rightarrow> 'est \<Rightarrow> Storage \<Rightarrow> Storage" where
  "App_updateListener params generateHtmlFromNodes stringify_toJSON editorState localStorage =
     updateListener generateHtmlFromNodes stringify_toJSON
       (Some (App_onHtmlChange params)) (Some (App_onStateChange params))
       editorState localStorage"

section \<open>InsertLayoutDialog.tsx\<close>

record LayoutItem =
  li_label :: string
  li_value :: string

text \<open>The labels hold two letters outside ASCII, written here by their code units.\<close>

definition LAYOUTS :: "LayoutItem list" where
  "LAYOUTS =
     [ \<lparr> li_label = ''2 colonnes (largeur '' @ [CHR 0xE9] @ ''gale)'', li_value = ''1fr 1fr'' \<rparr>,
       \<lparr> li_label = ''2 colonnes (25% - 75%)'', li_value = ''1fr 3fr'' \<rparr>,
       \<lparr> li_label = ''2 colonnes (largeur '' @ [CHR 0xE9] @ ''gale), 2 colonnes sur mobile'',
         li_value = ''1fr 1fr 0fr'' \<rparr>,
       \<lparr> li_label = ''3 colonnes (largeur '' @ [CHR 0xE9] @ ''gale)'', li_value = ''1fr 1fr 1fr'' \<rparr>,
       \<lparr> li_label = ''3 colonnes (25% - 50% - 25%)'', li_value = ''1fr 2fr 1fr'' \<rparr>,
       \<lparr> li_label = ''4 colonnes (largeur '' @ [CHR 0xE9] @ ''gale)'',
         li_value = ''1fr 1fr 1fr 1fr'' \<rparr>,
       \<lparr> li_label = ''2 colonnes, image avec texte'', li_value = ''2fr 3fr 0fr'' \<rparr>,
       \<lparr> li_label = ''2 colonnes, image '' @ [CHR 0xE0] @ '' droite avec texte'',
         li_value = ''3fr 2fr 0fr'' \<rparr> ]"

text \<open>The dialog's state is \<open>layout\<close>; what it does to the outside is a list of effects, in
  the order of the calls. \<open>INSERT_LAYOUT_COMMAND\<close> is imported from the layout plugin.\<close>

datatype command = INSERT_LAYOUT_COMMAND

datatype effect = dispatchCommand command string | onClose

text \<open>\<open>useState(LAYOUTS[0].value)\<close>; \<open>LAYOUTS\<close> is not empty.\<close>

definition initial_layout :: string where
  "initial_layout = li_value (LAYOUTS ! 0)"

definition buttonLabel :: "string \<Rightarrow> string option" where
  "buttonLabel layout = map_option li_label (find (\<lambda>item. li_value item = layout) LAYOUTS)"

text \<open>The handler of the Insert button.\<close>

definition onClick :: "string \<Rightarrow> effect list" where
  "onClick layout = [dispatchCommand INSERT_LAYOUT_COMMAND layout, onClose]"

text \<open>The handler of a dropdown item, \<open>() => setLayout(value)\<close>: the new state.\<close>

definition item_onClick :: "string \<Rightarrow> string \<Rightarrow> string" where
  "item_onClick v layout = v"

text \<open>The rendered dialog: the dropdown items (label and handler) in the order of
  \<open>LAYOUTS\<close>, and the Insert button's handler.\<close>

datatype event = ItemClick nat | InsertClick

definition dropdown_items :: "(string \<times> (string \<Rightarrow> string)) list" where
  "dropdown_items = map (\<lambda>item. (li_label item, item_onClick (li_value item))) LAYOUTS"

text \<open>One user event: a click on the \<open>i\<close>-th item (nothing when there is no such item) or
  on Insert. The state is the layout and the effects so far.\<close>

fun dialog_step :: "string \<times> effect list \<Rightarrow> event \<Rightarrow> string \<times> effect list" where
  "dialog_step (layout, effects) (ItemClick i) =
     (if i < length dropdown_items then (snd (dropdown_items ! i) layout, effects)
      else (layout, effects))"
| "dialog_step (layout, effects) InsertClick = (layout, effects @ onClick layout)"

definition dialog_run :: "event list \<Rightarrow> string \<times> effect list" where
  "dialog_run events = foldl dialog_step (initial_layout, []) events"

section \<open>ImageComponent.tsx\<close>

subsection \<open>LazyImage\<close>

definition isSVG :: "string \<Rightarrow> bool" where
  "isSVG src = endsWith (toLowerCase src) ''.svg''"

text \<open>The state \<open>dimensions\<close> of \<open>LazyImage\<close>, \<open>null\<close> at first.\<close>

record Dimensions =
  dim_width :: number
  dim_height :: number

text \<open>\<open>naturalWidth\<close> and \<open>naturalHeight\<close> of an \<open>HTMLImageElement\<close> are unsigned integers.\<close>

record ImageSize =
  naturalWidth :: nat
  naturalHeight :: nat

text \<open>The effect that runs when the image reference is set, and the \<open>onLoad\<close> handler: both
  store the natural size of an SVG image.\<close>

definition LazyImage_effect ::
  "string \<Rightarrow> ImageSize option \<Rightarrow> Dimensions option \<Rightarrow> Dimensions option" where
  "LazyImage_effect src imageRef dimensions =
     (case imageRef of
        Some current \<Rightarrow>
          if isSVG src
          then Some \<lparr> dim_width = of_nat (naturalWidth current),
                      dim_height = of_nat (naturalHeight current) \<rparr>
          else dimensions
      | None \<Rightarrow> dimensions)"

definition LazyImage_onLoad :: "string \<Rightarrow> ImageSize \<Rightarrow> Dimensions option \<Rightarrow> Dimensions option" where
  "LazyImage_onLoad src img dimensions =
     (if isSVG src
      then Some \<lparr> dim_width = of_nat (naturalWidth img),
                  dim_height = of_nat (naturalHeight img) \<rparr>
      else dimensions)"

text \<open>\<open>x || 200\<close> for \<open>x: number | undefined\<close>.\<close>

fun or_200 :: "number option \<Rightarrow> number" where
  "or_200 None = 200"
| "or_200 (Some x) = (if x = 0 then 200 else x)"

text \<open>A value of the style object: \<open>'inherit'\<close>, or a number as the arithmetic leaves
  it. A \<open>width\<close> or \<open>height\<close> that is passed on is the number it was.\<close>

datatype style_value = Style_inherit | Style_number double

fun style_of :: "dimension \<Rightarrow> style_value" where
  "style_of Inherit = Style_inherit"
| "style_of (Num x) = Style_number (Finite x)"

record ImageStyle =
  st_height :: style_value
  st_maxWidth :: number
  st_width :: style_value

definition calculateDimensions ::
  "string \<Rightarrow> Dimensions option \<Rightarrow> dimension \<Rightarrow> dimension \<Rightarrow> number \<Rightarrow> ImageStyle" where
  "calculateDimensions src dimensions width height maxWidth =
     (if \<not> isSVG src
      then \<lparr> st_height = style_of height, st_maxWidth = maxWidth, st_width = style_of width \<rparr>
      else
        let naturalWidth = or_200 (map_option dim_width dimensions);
            naturalHeight = or_200 (map_option dim_height dimensions);
            finalWidth = Finite naturalWidth;
            finalHeight = Finite naturalHeight;
            (finalWidth, finalHeight) =
              (if dgt finalWidth (Finite maxWidth)
               then let scale = ddiv (Finite maxWidth) finalWidth
                    in (Finite maxWidth, Math_round (dmul finalHeight scale))
               else (finalWidth, finalHeight));
            maxHeight = Finite 500;
            (finalWidth, finalHeight) =
              (if dgt finalHeight maxHeight
               then let scale = ddiv maxHeight finalHeight
                    in (Math_round (dmul finalWidth scale), maxHeight)
               else (finalWidth, finalHeight))
        in \<lparr> st_height = Style_number finalHeight, st_maxWidth = maxWidth,
             st_width = Style_number finalWidth \<rparr>)"

subsection \<open>ImageComponent\<close>

text \<open>The state of the component that its rendering reads; \<open>selection_isNodeSelection\<close>
  is \<open>$isNodeSelection(selection)\<close>.\<close>

record ImageComponentState =
  isSelected :: bool
  isResizing :: bool
  selection_isNodeSelection :: bool
  isLoadError :: bool

record LazyImageProps =
  lz_otherClassName :: string
  lz_className :: "string option"
  lz_src :: string
  lz_altText :: string
  lz_title :: string
  lz_width :: dimension
  lz_height :: dimension
  lz_maxWidth :: number
  lz_imgRounded :: bool

text \<open>What is rendered in place of the image: \<open><BrokenImage />\<close> or \<open><LazyImage ... />\<close>.\<close>

datatype image_element = BrokenImage | LazyImage LazyImageProps

record ImageResizerProps =
  rz_showCaption :: bool
  rz_imgRounded :: bool
  rz_imgZoomable :: bool
  rz_maxWidth :: number
  rz_captionsEnabled :: bool

text \<open>The rendered component: the \<open>draggable\<close> of the outer \<open>div\<close>, the image, the nested
  composer of the caption (its editor) when shown, and the resizer when shown.\<close>

record 'e ImageComponentOutput =
  out_draggable :: bool
  out_image :: image_element
  out_caption :: "'e option"
  out_resizer :: "ImageResizerProps option"

text \<open>\<open>className ?? ''\<close> and \<open>title ?? ""\<close>, on a \<open>string | undefined\<close>.\<close>

fun nullish_empty :: "string option \<Rightarrow> string" where
  "nullish_empty None = []"
| "nullish_empty (Some s) = s"

definition ImageComponent ::
  "'e ImageComponentProps \<Rightarrow> bool \<Rightarrow> ImageComponentState \<Rightarrow> 'e ImageComponentOutput" where
  "ImageComponent props isEditable st =
     (let draggable = (isSelected st \<and> selection_isNodeSelection st \<and> \<not> isResizing st);
          isFocused = ((isSelected st \<or> isResizing st) \<and> isEditable)
      in \<lparr> out_draggable = draggable,
           out_image =
             (if isLoadError st then BrokenImage
              else LazyImage
                \<lparr> lz_otherClassName = nullish_empty (pr_className props),
                  lz_className =
                    (if isFocused
                     then Some (''focused '' @
                            (if selection_isNodeSelection st then ''draggable'' else []))
                     else None),
                  lz_src = pr_src props,
                  lz_altText = pr_altText props,
                  lz_title = nullish_empty (pr_title props),
                  lz_width = pr_width props,
                  lz_height = pr_height props,
                  lz_maxWidth = pr_maxWidth props,
                  lz_imgRounded = pr_imgRounded props \<rparr>),
           out_caption = (if pr_showCaption props then Some (pr_caption props) else None),
           out_resizer =
             (if pr_resizable props \<and> selection_isNodeSelection st \<and> isFocused
              then Some
                \<lparr> rz_showCaption = pr_showCaption props,
                  rz_imgRounded = pr_imgRounded props,
                  rz_imgZoomable = pr_imgZoomable props,
                  rz_maxWidth = pr_maxWidth props,
                  rz_captionsEnabled = (\<not> isLoadError st \<and> pr_captionsEnabled props) \<rparr>
              else None) \<rparr>)"

text \<open>The \<open>onError\<close> handler given to \<open>LazyImage\<close>: \<open>() => setIsLoadError(true)\<close>.\<close>

definition LazyImage_onError :: "ImageComponentState \<Rightarrow> ImageComponentState" where
  "LazyImage_onError st = st \<lparr> isLoadError := True \<rparr>"

section \<open>Concrete inputs\<close>

text \<open>A framework for evaluating the functions above: an editor is the number of its
  state, the empty state is 0, and a node created without a key receives the key \<open>1\<close>.\<close>

definition test_framework :: "(nat, nat, nat) lexical" where
  "test_framework =
     \<lparr> createEditor = 0,
       setNodeKey = case_option ''1'' id,
       editor_toJSON = id,
       parseEditorState = (\<lambda>e s. s),
       isEmpty = (\<lambda>st. st = 0),
       setEditorState = (\<lambda>e st. st) \<rparr>"

definition test_node :: "nat ImageNode" where
  "test_node =
     \<lparr> n__src = ''https://example.org/cat.png'',
       n__altText = ''a cat'',
       n__width = Num 0,
       n__height = Num 120,
       n__maxWidth = 500,
       n__showCaption = True,
       n__imgRounded = False,
       n__imgZoomable = True,
       n__caption = 7,
       n__captionsEnabled = True,
       n__title = None,
       n__className = Some ''wide'',
       n__key = ''5'' \<rparr>"

text \<open>An image pasted without a \<open>width\<close> attribute: its \<open>width\<close> property is 0.\<close>

definition test_img :: HTMLImageElement where
  "test_img =
     \<lparr> img_src = ''https://example.org/cat.png'',
       img_alt = ''a cat'',
       img_width = 0,
       img_height = 120,
       img_className = ''wide'',
       img_parentElement = Some ''P'',
       img_previousSibling = None,
       img_attributes = [] \<rparr>"


text \<open>The props that \<open>decorate\<close> gives for \<open>test_node\<close>, and a component that is selected in
  an editable editor, with no load error.\<close>

definition test_props :: "nat ImageComponentProps" where
  "test_props =
     \<lparr> pr_src = ''https://example.org/cat.png'',
       pr_altText = ''a cat'',
       pr_width = Num 0,
       pr_height = Num 120,
       pr_maxWidth = 500,
       pr_nodeKey = ''5'',
       pr_showCaption = True,
       pr_imgRounded = False,
       pr_imgZoomable = True,
       pr_caption = 7,
       pr_captionsEnabled = True,
       pr_title = None,
       pr_className = Some ''wide'',
       pr_resizable = True \<rparr>"

definition test_state :: ImageComponentState where
  "test_state =
     \<lparr> isSelected = True,
       isResizing = False,
       selection_isNodeSelection = True,
       isLoadError = False \<rparr>"

section \<open>Properties\<close>

text \<open>
  C2. For every image node, \<open>decorate\<close> returns an \<open>ImageComponent\<close> element whose props
  \<open>src\<close>, \<open>altText\<close>, \<open>width\<close>, \<open>height\<close>, \<open>maxWidth\<close>, \<open>showCaption\<close>, \<open>imgRounded\<close>,
  \<open>imgZoomable\<close>, \<open>caption\<close>, \<open>captionsEnabled\<close>, \<open>title\<close> and \<open>className\<close> are the node's
  fields of the same names, and whose \<open>resizable\<close> is true.
\<close>

theorem decorate_mirrors_node:
  "\<exists>p. decorate this = ImageComponent_element p
     \<and> pr_src p = n__src this
     \<and> pr_altText p = n__altText this
     \<and> pr_width p = n__width this
     \<and> pr_height p = n__height this
     \<and> pr_maxWidth p = n__maxWidth this
     \<and> pr_showCaption p = n__showCaption this
     \<and> pr_imgRounded p = n__imgRounded this
     \<and> pr_imgZoomable p = n__imgZoomable this
     \<and> pr_caption p = n__caption this
     \<and> pr_captionsEnabled p = n__captionsEnabled this
     \<and> pr_title p = n__title this
     \<and> pr_className p = n__className this
     \<and> pr_resizable p = True"
  by (simp add: decorate_def)

text \<open>
  C7. For every image node, \<open>exportDOM\<close> returns an \<open>img\<close> element whose \<open>src\<close>, \<open>alt\<close>,
  \<open>width\<close> and \<open>height\<close> attributes are the node's \<open>__src\<close>, \<open>__altText\<close>,
  \<open>__width.toString()\<close> and \<open>__height.toString()\<close>, whose \<open>title\<close> and \<open>class\<close> attributes
  are \<open>__title\<close> and \<open>__className\<close>, or the empty string when unset, and whose
  \<open>data-rounded\<close> and \<open>data-zoomable\<close> attributes are \<open>1\<close> when the flag is true and \<open>0\<close>
  otherwise. The element has no other attribute.
\<close>

theorem exportDOM_attributes:
  "localName (dx_element (exportDOM numberToString this)) = ''img''
   \<and> getAttribute (dx_element (exportDOM numberToString this)) ''src'' = Some (n__src this)
   \<and> getAttribute (dx_element (exportDOM numberToString this)) ''alt'' = Some (n__altText this)
   \<and> getAttribute (dx_element (exportDOM numberToString this)) ''width''
       = Some (case n__width this of Inherit \<Rightarrow> ''inherit'' | Num x \<Rightarrow> numberToString x)
   \<and> getAttribute (dx_element (exportDOM numberToString this)) ''height''
       = Some (case n__height this of Inherit \<Rightarrow> ''inherit'' | Num x \<Rightarrow> numberToString x)
   \<and> getAttribute (dx_element (exportDOM numberToString this)) ''title''
       = Some (case n__title this of None \<Rightarrow> [] | Some t \<Rightarrow> t)
   \<and> getAttribute (dx_element (exportDOM numberToString this)) ''class''
       = Some (case n__className this of None \<Rightarrow> [] | Some c \<Rightarrow> c)
   \<and> getAttribute (dx_element (exportDOM numberToString this)) ''data-rounded''
       = Some (if n__imgRounded this then ''1'' else ''0'')
   \<and> getAttribute (dx_element (exportDOM numberToString this)) ''data-zoomable''
       = Some (if n__imgZoomable this then ''1'' else ''0'')
   \<and> map fst (attributes (dx_element (exportDOM numberToString this)))
       = [''src'', ''alt'', ''width'', ''height'', ''title'', ''class'', ''data-rounded'',
          ''data-zoomable'']"
  by (simp add: exportDOM_def createElement_def setAttribute_def getAttribute_def
      split: dimension.split option.split)

text \<open>
  C5. Each mutator changes only its named fields on the writable node:
  \<open>setWidthAndHeight w h\<close> sets \<open>__width\<close> to \<open>w\<close> and \<open>__height\<close> to \<open>h\<close>,
  \<open>setShowCaption\<close>, \<open>setImgRounded\<close> and \<open>setImgZoomable\<close> set \<open>__showCaption\<close>,
  \<open>__imgRounded\<close> and \<open>__imgZoomable\<close>; every other field of the writable node, the key
  included, is as \<open>getWritable\<close> returned it.
\<close>

theorem mutators_change_named_fields_only:
  "n__src (setWidthAndHeight getWritable this w h) = n__src (getWritable this)
   \<and> n__altText (setWidthAndHeight getWritable this w h) = n__altText (getWritable this)
   \<and> n__width (setWidthAndHeight getWritable this w h) = w
   \<and> n__height (setWidthAndHeight getWritable this w h) = h
   \<and> n__maxWidth (setWidthAndHeight getWritable this w h) = n__maxWidth (getWritable this)
   \<and> n__showCaption (setWidthAndHeight getWritable this w h) = n__showCaption (getWritable this)
   \<and> n__imgRounded (setWidthAndHeight getWritable this w h) = n__imgRounded (getWritable this)
   \<and> n__imgZoomable (setWidthAndHeight getWritable this w h) = n__imgZoomable (getWritable this)
   \<and> n__caption (setWidthAndHeight getWritable this w h) = n__caption (getWritable this)
   \<and> n__captionsEnabled (setWidthAndHeight getWritable this w h) = n__captionsEnabled (getWritable this)
   \<and> n__title (setWidthAndHeight getWritable this w h) = n__title (getWritable this)
   \<and> n__className (setWidthAndHeight getWritable this w h) = n__className (getWritable this)
   \<and> n__key (setWidthAndHeight getWritable this w h) = n__key (getWritable this)
   \<and> n__src (setShowCaption getWritable this b) = n__src (getWritable this)
   \<and> n__altText (setShowCaption getWritable this b) = n__altText (getWritable this)
   \<and> n__width (setShowCaption getWritable this b) = n__width (getWritable this)
   \<and> n__height (setShowCaption getWritable this b) = n__height (getWritable this)
   \<and> n__maxWidth (setShowCaption getWritable this b) = n__maxWidth (getWritable this)
   \<and> n__showCaption (setShowCaption getWritable this b) = b
   \<and> n__imgRounded (setShowCaption getWritable this b) = n__imgRounded (getWritable this)
   \<and> n__imgZoomable (setShowCaption getWritable this b) = n__imgZoomable (getWritable this)
   \<and> n__caption (setShowCaption getWritable this b) = n__caption (getWritable this)
   \<and> n__captionsEnabled (setShowCaption getWritable this b) = n__captionsEnabled (getWritable this)
   \<and> n__title (setShowCaption getWritable this b) = n__title (getWritable this)
   \<and> n__className (setShowCaption getWritable this b) = n__className (getWritable this)
   \<and> n__key (setShowCaption getWritable this b) = n__key (getWritable this)
   \<and> n__src (setImgRounded getWritable this b) = n__src (getWritable this)
   \<and> n__altText (setImgRounded getWritable this b) = n__altText (getWritable this)
   \<and> n__width (setImgRounded getWritable this b) = n__width (getWritable this)
   \<and> n__height (setImgRounded getWritable this b) = n__height (getWritable this)
   \<and> n__maxWidth (setImgRounded getWritable this b) = n__maxWidth (getWritable this)
   \<and> n__showCaption (setImgRounded getWritable this b) = n__showCaption (getWritable this)
   \<and> n__imgRounded (setImgRounded getWritable this b) = b
   \<and> n__imgZoomable (setImgRounded getWritable this b) = n__imgZoomable (getWritable this)
   \<and> n__caption (setImgRounded getWritable this b) = n__caption (getWritable this)
   \<and> n__captionsEnabled (setImgRounded getWritable this b) = n__captionsEnabled (getWritable this)
   \<and> n__title (setImgRounded getWritable this b) = n__title (getWritable this)
   \<and> n__className (setImgRounded getWritable this b) = n__className (getWritable this)
   \<and> n__key (setImgRounded getWritable this b) = n__key (getWritable this)
   \<and> n__src (setImgZoomable getWritable this b) = n__src (getWritable this)
   \<and> n__altText (setImgZoomable getWritable this b) = n__altText (getWritable this)
   \<and> n__width (setImgZoomable getWritable this b) = n__width (getWritable this)
   \<and> n__height (setImgZoomable getWritable this b) = n__height (getWritable this)
   \<and> n__maxWidth (setImgZoomable getWritable this b) = n__maxWidth (getWritable this)
   \<and> n__showCaption (setImgZoomable getWritable this b) = n__showCaption (getWritable this)
   \<and> n__imgRounded (setImgZoomable getWritable this b) = n__imgRounded (getWritable this)
   \<and> n__imgZoomable (setImgZoomable getWritable this b) = b
   \<and> n__caption (setImgZoomable getWritable this b) = n__caption (getWritable this)
   \<and> n__captionsEnabled (setImgZoomable getWritable this b) = n__captionsEnabled (getWritable this)
   \<and> n__title (setImgZoomable getWritable this b) = n__title (getWritable this)
   \<and> n__className (setImgZoomable getWritable this b) = n__className (getWritable this)
   \<and> n__key (setImgZoomable getWritable this b) = n__key (getWritable this)"
  by (simp add: setWidthAndHeight_def setShowCaption_def setImgRounded_def setImgZoomable_def)

text \<open>
  C8. \<open>exportJSON\<close> writes a \<open>width\<close> or \<open>height\<close> that is \<open>'inherit'\<close> as 0 and a
  number as itself, and the constructor stores a \<open>width\<close> or \<open>height\<close> of 0 as
  \<open>'inherit'\<close>. So, when \<open>$applyNodeReplacement\<close> and the inherited \<open>updateFromJSON\<close>
  return the node they are given, \<open>importJSON (exportJSON n)\<close> agrees with \<open>n\<close> on \<open>src\<close>,
  \<open>altText\<close>, \<open>maxWidth\<close>, \<open>showCaption\<close>, \<open>imgRounded\<close> and \<open>imgZoomable\<close>; its \<open>title\<close>
  and \<open>className\<close> are those of \<open>n\<close> with \<open>undefined\<close> replaced by the empty string; its
  \<open>width\<close> and \<open>height\<close> are those of \<open>n\<close> when they are numbers other than 0, and
  \<open>'inherit'\<close> when they are \<open>'inherit'\<close> or 0.
\<close>

theorem importJSON_exportJSON:
  assumes "\<And>m. applyNodeReplacement m = m"
    and "\<And>m j. super_updateFromJSON m j = m"
  shows "(let j = exportJSON fw super_exportJSON n;
              n' = importJSON fw applyNodeReplacement super_updateFromJSON j
          in js_width j = Some (case n__width n of Inherit \<Rightarrow> 0 | Num x \<Rightarrow> x)
           \<and> js_height j = Some (case n__height n of Inherit \<Rightarrow> 0 | Num x \<Rightarrow> x)
           \<and> n__width (new_ImageNode fw src altText maxWidth (Some (Num 0)) height showCaption
                  imgRounded imgZoomable caption captionsEnabled key title className) = Inherit
           \<and> n__height (new_ImageNode fw src altText maxWidth width (Some (Num 0)) showCaption
                  imgRounded imgZoomable caption captionsEnabled key title className) = Inherit
           \<and> n__src n' = n__src n
           \<and> n__altText n' = n__altText n
           \<and> n__maxWidth n' = n__maxWidth n
           \<and> n__showCaption n' = n__showCaption n
           \<and> n__imgRounded n' = n__imgRounded n
           \<and> n__imgZoomable n' = n__imgZoomable n
           \<and> n__title n' = Some (case n__title n of None \<Rightarrow> [] | Some t \<Rightarrow> t)
           \<and> n__className n' = Some (case n__className n of None \<Rightarrow> [] | Some c \<Rightarrow> c)
           \<and> n__width n' = (case n__width n of Inherit \<Rightarrow> Inherit
                              | Num x \<Rightarrow> if x = 0 then Inherit else Num x)
           \<and> n__height n' = (case n__height n of Inherit \<Rightarrow> Inherit
                              | Num x \<Rightarrow> if x = 0 then Inherit else Num x))"
  using assms
  by (simp add: importJSON_def exportJSON_def updateFromJSON_def createImageNode_def
      new_ImageNode_def getSrc_def getAltText_def Let_def split: dimension.split option.split)

text \<open>The round trip of \<open>test_node\<close>, whose width is 0, whose height is 120 and whose title
  is unset: the width comes back as \<open>'inherit'\<close>, the title as the empty string, the
  height and the other fields as they were (the key is a new one). With the height
  \<open>'inherit'\<close>, the serialized height is 0.\<close>

theorem importJSON_exportJSON_witness:
  "importJSON test_framework id (\<lambda>m j. m) (exportJSON test_framework getKey test_node)
     = test_node \<lparr> n__width := Inherit, n__title := Some [], n__key := ''1'' \<rparr>
   \<and> js_width (exportJSON test_framework getKey test_node) = Some 0
   \<and> js_height (exportJSON test_framework getKey test_node) = Some 120
   \<and> js_height (exportJSON test_framework getKey (test_node \<lparr> n__height := Inherit \<rparr>))
       = Some 0
   \<and> n__height (importJSON test_framework id (\<lambda>m j. m)
         (exportJSON test_framework getKey (test_node \<lparr> n__height := Inherit \<rparr>))) = Inherit"
  using importJSON_exportJSON [of id "\<lambda>m j. m" test_framework getKey test_node]
  by (simp add: importJSON_def exportJSON_def updateFromJSON_def createImageNode_def
      new_ImageNode_def getSrc_def getAltText_def Let_def test_framework_def test_node_def)

text \<open>
  C9, as the claim states it, fails: an \<open>img\<close> element whose \<open>width\<close> is 0 is converted to
  a node whose width is \<open>'inherit'\<close>, not the element's width.
\<close>

theorem convertImageElement_zero_width_counterexample:
  "img_width test_img = 0
   \<and> convertImageElement test_framework id test_img
     = Some \<lparr> dco_node =
         \<lparr> n__src = ''https://example.org/cat.png'',
           n__altText = ''a cat'',
           n__width = Inherit,
           n__height = Num 120,
           n__maxWidth = 500,
           n__showCaption = False,
           n__imgRounded = False,
           n__imgZoomable = False,
           n__caption = 0,
           n__captionsEnabled = True,
           n__title = None,
           n__className = Some ''wide'',
           n__key = ''1'' \<rparr> \<rparr>"
  by (simp add: convertImageElement_def isGoogleDocCheckboxImg_def startsWith_def
      createImageNode_def new_ImageNode_def test_framework_def test_img_def)

text \<open>
  C9, amended. \<open>$convertImageElement\<close> returns \<open>null\<close> exactly when the element's \<open>src\<close>
  starts with \<open>file:///\<close> or the element is a Google Docs checkbox image (its parent element
  is an \<open>LI\<close>, it has no previous sibling and its \<open>aria-roledescription\<close> is \<open>checkbox\<close>).
  For every other element it returns the output whose node is \<open>$applyNodeReplacement\<close> of a
  new image node with the element's \<open>alt\<close>, \<open>src\<close> and \<open>className\<close>, with the element's
  \<open>width\<close> and \<open>height\<close> where they are not 0 and \<open>'inherit'\<close> where they are 0, with
  \<open>maxWidth\<close> 500, no title, the three flags false and captions enabled.
\<close>

theorem convertImageElement_result:
  "(convertImageElement fw applyNodeReplacement img = None)
     = (startsWith (img_src img) ''file:///''
        \<or> (img_parentElement img = Some ''LI''
            \<and> img_previousSibling img = None
            \<and> map_of (img_attributes img) ''aria-roledescription'' = Some ''checkbox''))
   \<and> convertImageElement fw applyNodeReplacement img
       = (if convertImageElement fw applyNodeReplacement img = None then None
          else Some \<lparr> dco_node = applyNodeReplacement
            \<lparr> n__src = img_src img,
              n__altText = img_alt img,
              n__width = (if img_width img = 0 then Inherit else Num (of_nat (img_width img))),
              n__height = (if img_height img = 0 then Inherit else Num (of_nat (img_height img))),
              n__maxWidth = 500,
              n__showCaption = False,
              n__imgRounded = False,
              n__imgZoomable = False,
              n__caption = createEditor fw,
              n__captionsEnabled = True,
              n__title = None,
              n__className = Some (img_className img),
              n__key = setNodeKey fw None \<rparr> \<rparr>)"
  by (simp add: convertImageElement_def isGoogleDocCheckboxImg_def
      createImageNode_def new_ImageNode_def)

text \<open>
  C4. The initial editor state of the configuration is the string that local storage holds
  under the \<open>storageKey\<close> query parameter (the key is the parameter's first value; a missing
  parameter is \<open>null\<close>, which the storage reads as the key \<open>null\<close>); it is \<open>null\<close> when
  that entry is absent, empty or the string \<open>undefined\<close>.
\<close>

theorem initial_state_from_storage:
  "cfg_editorState (initialConfig params localStorage)
     = (case localStorage (toDOMString (storageKey params)) of
          None \<Rightarrow> None
        | Some v \<Rightarrow> if v = [] \<or> v = ''undefined'' then None else Some v)
   \<and> storageKey params = map_of params ''storageKey''"
  by (simp add: initialConfig_def dataFromStorage_def getItem_def storageKey_def params_get_def
      split: option.split)

text \<open>
  C1, as the claim states it, fails twice. With the query \<open>?storageKey=\<close> the parameter is
  present and empty, and nothing is stored under the empty key. With
  \<open>?storageKey=doc&htmlStorageKey=doc\<close> the entry \<open>doc\<close> holds the JSON after the update,
  not the HTML.
\<close>

theorem update_listener_storage_counterexample:
  "storageKey [(''storageKey'', [])] = Some []
   \<and> App_updateListener [(''storageKey'', [])] fst snd (''<p>hi</p>'', ''{}'')
        Map.empty [] = None
   \<and> htmlStorageKey [(''storageKey'', ''doc''), (''htmlStorageKey'', ''doc'')] = Some ''doc''
   \<and> App_updateListener [(''storageKey'', ''doc''), (''htmlStorageKey'', ''doc'')] fst snd
        (''<p>hi</p>'', ''{}'') Map.empty ''doc'' = Some ''{}''"
  by (simp add: App_updateListener_def updateListener_def App_onHtmlChange_def
      App_onStateChange_def setItem_def storageKey_def htmlStorageKey_def params_get_def)

text \<open>
  C1, amended. After the update listener has run, local storage holds the JSON of the new
  editor state under \<open>storageKey\<close> when that parameter is present and not empty; it holds
  the HTML generated from the new state under \<open>htmlStorageKey\<close> when that parameter is
  present, not empty, and not the key under which the JSON was stored; every other entry
  is unchanged, so that an absent or empty parameter stores nothing.
\<close>

theorem update_listener_storage:
  "App_updateListener params generateHtmlFromNodes stringify_toJSON editorState localStorage
     = (\<lambda>key.
          if truthy (storageKey params) \<and> key = toDOMString (storageKey params)
          then Some (stringify_toJSON editorState)
          else if truthy (htmlStorageKey params) \<and> key = toDOMString (htmlStorageKey params)
          then Some (generateHtmlFromNodes editorState)
          else localStorage key)"
  by (auto simp add: App_updateListener_def updateListener_def App_onHtmlChange_def
      App_onStateChange_def setItem_def fun_eq_iff)

text \<open>
  C6. The selected layout starts as the value of the first entry of \<open>LAYOUTS\<close>, which is
  \<open>1fr 1fr\<close>; a click on a dropdown item sets the selection to that item's value and has no
  other effect; a click on Insert dispatches \<open>INSERT_LAYOUT_COMMAND\<close> with the selected
  layout and then calls \<open>onClose\<close>, once, and leaves the selection as it is.
\<close>

theorem insert_layout_dialog:
  "initial_layout = li_value (hd LAYOUTS)
   \<and> initial_layout = ''1fr 1fr''
   \<and> (i < length LAYOUTS \<longrightarrow>
        dialog_step (layout, effects) (ItemClick i) = (li_value (LAYOUTS ! i), effects))
   \<and> dialog_step (layout, effects) InsertClick
       = (layout, effects @ [dispatchCommand INSERT_LAYOUT_COMMAND layout, onClose])
   \<and> length (filter (\<lambda>e. e = onClose) (onClick layout)) = 1"
  by (simp add: initial_layout_def dropdown_items_def item_onClick_def onClick_def)
    (simp add: LAYOUTS_def)

text \<open>The fourth item, then Insert: the command carries \<open>1fr 1fr 1fr\<close>.\<close>

theorem insert_layout_dialog_witness:
  "(3::nat) < length LAYOUTS
   \<and> dialog_run [ItemClick 3, InsertClick]
       = (''1fr 1fr 1fr'', [dispatchCommand INSERT_LAYOUT_COMMAND ''1fr 1fr 1fr'', onClose])"
  using insert_layout_dialog [of 3 initial_layout "[]"]
  by (simp add: dialog_run_def dropdown_items_def item_onClick_def onClick_def
      initial_layout_def LAYOUTS_def)

text \<open>
  C3, as the claim states it, fails: \<open>ImageComponent\<close> substitutes a fallback rendering
  for a failed operation. The component of \<open>test_props\<close> renders the image; once the
  image's \<open>onError\<close> handler has run, it renders \<open>BrokenImage\<close> in its place.
\<close>

theorem image_load_error_counterexample:
  "out_image (ImageComponent test_props True test_state)
     = LazyImage
         \<lparr> lz_otherClassName = ''wide'',
           lz_className = Some ''focused draggable'',
           lz_src = ''https://example.org/cat.png'',
           lz_altText = ''a cat'',
           lz_title = [],
           lz_width = Num 0,
           lz_height = Num 120,
           lz_maxWidth = 500,
           lz_imgRounded = False \<rparr>
   \<and> out_image (ImageComponent test_props True (LazyImage_onError test_state)) = BrokenImage"
  by (simp add: ImageComponent_def LazyImage_onError_def test_props_def test_state_def)

text \<open>
  C3, amended. Every error passed to the editor's \<open>onError\<close> handler is written to the
  console and rethrown unchanged. \<open>ImageComponent\<close> recovers from one failure, the load of
  its image: after the image's \<open>onError\<close> handler has run it renders the \<open>BrokenImage\<close>
  placeholder in place of the image, and it renders the placeholder only when a load error
  has been recorded; the resizer, where shown, then has captions disabled.
\<close>

theorem error_handling:
  "onError error console = (console @ [console_error ''error'' error], Inl error)
   \<and> out_image (ImageComponent props isEditable (LazyImage_onError st)) = BrokenImage
   \<and> (out_image (ImageComponent props isEditable st) = BrokenImage) = isLoadError st
   \<and> map_option rz_captionsEnabled
        (out_resizer (ImageComponent props isEditable (LazyImage_onError st)))
       = map_option (\<lambda>r. False) (out_resizer (ImageComponent props isEditable st))"
  by (simp add: onError_def ImageComponent_def LazyImage_onError_def Let_def)

subsection \<open>Double arithmetic\<close>

text \<open>\<open>floor_log2\<close> finds the exponent of a positive number.\<close>

lemma floor_log2_ge1:
  fixes x :: rat
  assumes "1 \<le> x"
  shows "2 powi floor_log2 x \<le> x \<and> x < 2 powi (floor_log2 x + 1)"
proof -
  define n where "n = \<lfloor>x\<rfloor>"
  define B where "B = bitlen n"
  have n_pos: "0 < n"
    using assms by (simp add: n_def)
  have b: "2 ^ nat (B - 1) \<le> n" "n < 2 ^ nat B"
    using bitlen_bounds [OF n_pos] by (simp_all add: B_def)
  have B_pos: "1 \<le> B"
  proof (rule ccontr)
    assume "\<not> 1 \<le> B"
    then have "nat B = 0" by simp
    with b(2) n_pos show False by simp
  qed
  have e: "floor_log2 x = B - 1"
    using assms by (simp add: floor_log2_def B_def n_def)
  have p1: "(2::rat) powi (B - 1) = 2 ^ nat (B - 1)"
    using B_pos by (intro power_int_nonneg_exp) simp
  have p2: "(2::rat) powi (B - 1 + 1) = 2 ^ nat B"
    using B_pos by (simp add: power_int_nonneg_exp)
  have "(2::rat) ^ nat (B - 1) = of_int (2 ^ nat (B - 1))"
    by simp
  also have "\<dots> \<le> of_int n"
    using b(1) by (simp only: of_int_le_iff)
  also have "\<dots> \<le> x"
    unfolding n_def by simp
  finally have lower: "(2::rat) ^ nat (B - 1) \<le> x" .
  have "n + 1 \<le> 2 ^ nat B"
    using b(2) by simp
  then have "(of_int (n + 1) :: rat) \<le> of_int (2 ^ nat B)"
    by (simp only: of_int_le_iff)
  then have n_le: "of_int n + 1 \<le> (2::rat) ^ nat B"
    by simp
  have "x < of_int n + 1"
    unfolding n_def by linarith
  also note n_le
  finally have upper: "x < (2::rat) ^ nat B" .
  show ?thesis
    unfolding e p1 p2 using lower upper by (rule conjI)
qed

lemma floor_log2_lt1:
  fixes x :: rat
  assumes "0 < x" "x < 1"
  shows "2 powi floor_log2 x \<le> x \<and> x < 2 powi (floor_log2 x + 1)"
proof -
  define y where "y = 1 / x"
  define m where "m = \<lceil>y\<rceil> - 1"
  define B where "B = bitlen m"
  have y_gt: "1 < y"
    using assms by (simp add: y_def)
  have x_eq: "x = 1 / y"
    by (simp add: y_def)
  have "2 \<le> \<lceil>y\<rceil>"
    using y_gt by (simp add: le_ceiling_iff)
  then have m_pos: "0 < m"
    by (simp add: m_def)
  have b: "2 ^ nat (B - 1) \<le> m" "m < 2 ^ nat B"
    using bitlen_bounds [OF m_pos] by (simp_all add: B_def)
  have B_pos: "1 \<le> B"
  proof (rule ccontr)
    assume "\<not> 1 \<le> B"
    then have "nat B = 0" by simp
    with b(2) m_pos show False by simp
  qed
  have e: "floor_log2 x = - B"
    using assms by (simp add: floor_log2_def B_def m_def y_def)
  have "m + 1 \<le> 2 ^ nat B"
    using b(2) by simp
  then have "(of_int (m + 1) :: rat) \<le> of_int (2 ^ nat B)"
    by (simp only: of_int_le_iff)
  then have c_le: "of_int \<lceil>y\<rceil> \<le> (2::rat) ^ nat B"
    by (simp add: m_def)
  have "y \<le> of_int \<lceil>y\<rceil>"
    by simp
  also note c_le
  finally have y_le: "y \<le> 2 ^ nat B" .
  have "(2::rat) ^ nat (B - 1) = of_int (2 ^ nat (B - 1))"
    by simp
  also have "\<dots> \<le> of_int m"
    using b(1) by (simp only: of_int_le_iff)
  also have "\<dots> < y"
    unfolding m_def by simp linarith
  finally have y_gt': "(2::rat) ^ nat (B - 1) < y" .
  have "(2::rat) powi (- B) = 1 / 2 powi B"
    by (rule power_int_minus_divide)
  also have "(2::rat) powi B = 2 ^ nat B"
    using B_pos by (intro power_int_nonneg_exp) simp
  finally have p1: "(2::rat) powi (- B) = 1 / 2 ^ nat B" .
  have "- B + 1 = - (B - 1)"
    by simp
  then have "(2::rat) powi (- B + 1) = 2 powi (- (B - 1))"
    by (simp only:)
  also have "\<dots> = 1 / 2 powi (B - 1)"
    by (rule power_int_minus_divide)
  also have "(2::rat) powi (B - 1) = 2 ^ nat (B - 1)"
    using B_pos by (intro power_int_nonneg_exp) simp
  finally have p2: "(2::rat) powi (- B + 1) = 1 / 2 ^ nat (B - 1)" .
  have lower: "1 / 2 ^ nat B \<le> x"
    using y_le y_gt unfolding x_eq by (simp add: field_simps)
  have upper: "x < 1 / (2::rat) ^ nat (B - 1)"
    using y_gt' y_gt unfolding x_eq by (simp add: field_simps)
  show ?thesis
    unfolding e p1 p2 using lower upper by (rule conjI)
qed

lemma floor_log2_bounds:
  fixes x :: rat
  assumes "0 < x"
  shows "2 powi floor_log2 x \<le> x" and "x < 2 powi (floor_log2 x + 1)"
  using floor_log2_ge1 [of x] floor_log2_lt1 [of x] assms by (cases "1 \<le> x"; simp)+

lemma pow2_less_cancel:
  assumes "(2::rat) powi a < 2 powi b"
  shows "a < b"
proof (rule ccontr)
  assume "\<not> a < b"
  then have "b \<le> a" by simp
  then have "(2::rat) powi b \<le> 2 powi a"
    by (rule power_int_increasing) simp
  with assms show False by simp
qed

lemma floor_log2_unique:
  fixes x :: rat
  assumes "2 powi e \<le> x" "x < 2 powi (e + 1)"
  shows "floor_log2 x = e"
proof -
  have pos: "0 < x"
    using assms(1) by (rule less_le_trans [rotated]) simp
  have "(2::rat) powi floor_log2 x < 2 powi (e + 1)"
    using floor_log2_bounds(1) [OF pos] assms(2) by simp
  then have 1: "floor_log2 x < e + 1"
    by (rule pow2_less_cancel)
  have "(2::rat) powi e < 2 powi (floor_log2 x + 1)"
    using floor_log2_bounds(2) [OF pos] assms(1) by simp
  then have 2: "e < floor_log2 x + 1"
    by (rule pow2_less_cancel)
  from 1 2 show ?thesis by simp
qed

lemma floor_log2_mono:
  fixes x y :: rat
  assumes "0 < x" "x \<le> y"
  shows "floor_log2 x \<le> floor_log2 y"
proof -
  have "0 < y" using assms by simp
  have "(2::rat) powi floor_log2 x \<le> x"
    using assms(1) by (rule floor_log2_bounds)
  also have "x \<le> y" by fact
  also have "y < 2 powi (floor_log2 y + 1)"
    using \<open>0 < y\<close> by (rule floor_log2_bounds)
  finally have "floor_log2 x < floor_log2 y + 1"
    by (rule pow2_less_cancel)
  then show ?thesis by simp
qed

text \<open>Rounding to an integer: a number within a half of an integer goes to it, and no
  number is taken past an integer above it.\<close>

lemma round_half_even_unique:
  assumes "of_int k - 1 / 2 < x" "x < of_int k + 1 / 2"
  shows "round_half_even x = k"
proof -
  define f where "f = \<lfloor>x\<rfloor>"
  have fl: "of_int f \<le> x" "x < of_int f + 1"
    unfolding f_def by linarith+
  have "f \<le> k"
  proof (rule ccontr)
    assume "\<not> f \<le> k"
    then have "k + 1 \<le> f" by simp
    then have "(of_int (k + 1) :: rat) \<le> of_int f"
      by (simp only: of_int_le_iff)
    with fl(1) assms(2) show False by simp
  qed
  moreover have "k - 1 \<le> f"
  proof (rule ccontr)
    assume "\<not> k - 1 \<le> f"
    then have "f \<le> k - 2" by simp
    then have "(of_int f :: rat) \<le> of_int (k - 2)"
      by (simp only: of_int_le_iff)
    with fl(2) assms(1) show False by simp
  qed
  ultimately consider "f = k" | "f = k - 1"
    by linarith
  then show ?thesis
  proof cases
    case 1
    with assms(2) have "x - of_int f < 1 / 2" by simp
    with 1 show ?thesis
      by (simp add: round_half_even_def Let_def f_def [symmetric])
  next
    case 2
    with assms(1) have "1 / 2 < x - of_int f" by simp
    with 2 show ?thesis
      by (simp add: round_half_even_def Let_def f_def [symmetric])
  qed
qed

lemma round_half_even_of_int: "round_half_even (of_int z) = z"
  by (rule round_half_even_unique) simp_all

lemma round_half_even_le:
  assumes "x \<le> of_int z"
  shows "round_half_even x \<le> z"
proof -
  have fl: "of_int \<lfloor>x\<rfloor> \<le> x" "x < of_int \<lfloor>x\<rfloor> + 1"
    by linarith+
  have "\<lfloor>x\<rfloor> \<le> z"
    using assms by (simp add: floor_le_iff)
  moreover have "\<lfloor>x\<rfloor> + 1 \<le> z" if "1 / 2 \<le> x - of_int \<lfloor>x\<rfloor>"
  proof -
    have "of_int \<lfloor>x\<rfloor> < (of_int z :: rat)"
      using that assms by linarith
    then show ?thesis by simp
  qed
  ultimately show ?thesis
    by (auto simp: round_half_even_def Let_def not_less)
qed

lemma round_half_even_nonneg:
  assumes "0 \<le> x"
  shows "0 \<le> round_half_even x"
proof -
  have "0 \<le> \<lfloor>x\<rfloor>"
    using assms by simp
  then show ?thesis
    by (auto simp: round_half_even_def Let_def)
qed

text \<open>Rounding to a double keeps the sign, and is settled by the exponent and the
  integer that the scaled number is nearest to.\<close>

lemma round_double_pos:
  assumes "0 < x"
  shows "round_double x =
     (if overflow_threshold
           \<le> of_int (round_half_even (x / 2 powi (max (floor_log2 x) (- 1022) - 52)))
               * 2 powi (max (floor_log2 x) (- 1022) - 52)
      then PosInfinity
      else Finite (of_int (round_half_even (x / 2 powi (max (floor_log2 x) (- 1022) - 52)))
                   * 2 powi (max (floor_log2 x) (- 1022) - 52)))"
  using assms by (simp add: round_double_def Let_def)

lemma round_double_nonpos:
  assumes "x \<le> 0"
  shows "dle (round_double x) (Finite 0)"
proof (cases "x = 0")
  case True
  then show ?thesis by (simp add: round_double_def)
next
  case False
  define q where "q = max (floor_log2 \<bar>x\<bar>) (- 1022) - 52"
  have "0 \<le> \<bar>x\<bar> / 2 powi q"
    by simp
  then have "0 \<le> round_half_even (\<bar>x\<bar> / 2 powi q)"
    by (rule round_half_even_nonneg)
  then have "0 \<le> (of_int (round_half_even (\<bar>x\<bar> / 2 powi q)) :: rat) * 2 powi q"
    by simp
  with False assms show ?thesis
    unfolding round_double_def Let_def q_def [symmetric] by simp
qed

lemma round_double_nonneg:
  assumes "0 \<le> x"
  shows "dle (Finite 0) (round_double x)"
proof (cases "x = 0")
  case True
  then show ?thesis by (simp add: round_double_def)
next
  case False
  with assms have pos: "0 < x" by simp
  define q where "q = max (floor_log2 x) (- 1022) - 52"
  have "0 \<le> x / 2 powi q"
    using assms by simp
  then have "0 \<le> round_half_even (x / 2 powi q)"
    by (rule round_half_even_nonneg)
  then have "0 \<le> (of_int (round_half_even (x / 2 powi q)) :: rat) * 2 powi q"
    by simp
  then show ?thesis
    unfolding round_double_pos [OF pos] q_def [symmetric] by simp
qed

lemma round_double_certificate:
  assumes e: "2 powi e \<le> x" "x < 2 powi (e + 1)"
    and q: "q = max e (- 1022) - 52"
    and k: "of_int k - 1 / 2 < x / 2 powi q" "x / 2 powi q < of_int k + 1 / 2"
    and v: "of_int k * 2 powi q < overflow_threshold"
  shows "round_double x = Finite (of_int k * 2 powi q)"
proof -
  have pos: "0 < x"
    using e(1) by (rule less_le_trans [rotated]) simp
  have "floor_log2 x = e"
    using e by (rule floor_log2_unique)
  moreover have "round_half_even (x / 2 powi q) = k"
    using k by (rule round_half_even_unique)
  ultimately show ?thesis
    using v by (simp add: round_double_pos [OF pos] q [symmetric])
qed

text \<open>Rounding does not pass a double that lies above the exact result, and a natural
  number below \<open>2\<^sup>5\<^sup>3\<close> is a double.\<close>

lemma dle_Finite_trans:
  assumes "dle d (Finite a)" "a \<le> b"
  shows "dle d (Finite b)"
  using assms by (cases d) simp_all

lemma round_double_upper:
  assumes c: "0 \<le> c" "round_double c = Finite c" and x: "x \<le> c"
  shows "dle (round_double x) (Finite c)"
proof (cases "0 < x")
  case False
  then have "dle (round_double x) (Finite 0)"
    by (intro round_double_nonpos) simp
  then show ?thesis
    using c(1) by (rule dle_Finite_trans)
next
  case True
  with x have c_pos: "0 < c" by simp
  define qx where "qx = max (floor_log2 x) (- 1022) - 52"
  define qc where "qc = max (floor_log2 c) (- 1022) - 52"
  define kx where "kx = round_half_even (x / 2 powi qx)"
  define kc where "kc = round_half_even (c / 2 powi qc)"
  define N where "N = kc * 2 ^ nat (qc - qx)"
  have rc: "\<not> overflow_threshold \<le> of_int kc * 2 powi qc" "of_int kc * 2 powi qc = c"
    using c(2) unfolding round_double_pos [OF c_pos] qc_def [symmetric] kc_def [symmetric]
    by (simp_all split: if_splits)
  have "floor_log2 x \<le> floor_log2 c"
    using True x by (rule floor_log2_mono)
  then have q_le: "qx \<le> qc"
    by (simp add: qx_def qc_def)
  have "(2::rat) powi qc = 2 powi ((qc - qx) + qx)"
    by simp
  also have "\<dots> = 2 powi (qc - qx) * 2 powi qx"
    by (rule power_int_add) simp
  also have "(2::rat) powi (qc - qx) = 2 ^ nat (qc - qx)"
    using q_le by (intro power_int_nonneg_exp) simp
  finally have "(2::rat) powi qc = 2 ^ nat (qc - qx) * 2 powi qx" .
  then have c_N: "c = of_int N * 2 powi qx"
    using rc(2) by (simp add: N_def)
  have "x / 2 powi qx \<le> c / 2 powi qx"
    using x by (simp add: divide_right_mono)
  also have "c / 2 powi qx = of_int N"
    by (simp add: c_N)
  finally have "kx \<le> N"
    unfolding kx_def by (rule round_half_even_le)
  then have "(of_int kx :: rat) \<le> of_int N"
    by (simp only: of_int_le_iff)
  then have "of_int kx * 2 powi qx \<le> of_int N * (2::rat) powi qx"
    by (rule mult_right_mono) simp
  then have v_le: "of_int kx * 2 powi qx \<le> c"
    by (simp only: c_N [symmetric])
  with rc have "\<not> overflow_threshold \<le> of_int kx * 2 powi qx"
    by simp
  then have "round_double x = Finite (of_int kx * 2 powi qx)"
    unfolding round_double_pos [OF True] qx_def [symmetric] kx_def [symmetric] by simp
  with v_le show ?thesis
    by simp
qed

lemma round_double_of_nat:
  assumes "n < 2 ^ 53"
  shows "round_double (of_nat n) = Finite (of_nat n)"
proof (cases "n = 0")
  case True
  then show ?thesis by (simp add: round_double_def)
next
  case False
  define x :: rat where "x = of_nat n"
  define e where "e = floor_log2 x"
  have pos: "0 < x" and ge1: "1 \<le> x"
    using False by (simp_all add: x_def)
  have "x < 2 ^ 53"
    using assms unfolding x_def by (metis of_nat_less_iff of_nat_numeral of_nat_power)
  have "(2::rat) powi e \<le> x"
    unfolding e_def using pos by (rule floor_log2_bounds)
  also have "x < 2 powi 53"
    using \<open>x < 2 ^ 53\<close> by simp
  finally have "e < 53"
    by (rule pow2_less_cancel)
  have "(2::rat) powi 0 \<le> x"
    using ge1 by simp
  also have "x < 2 powi (e + 1)"
    unfolding e_def using pos by (rule floor_log2_bounds)
  finally have "0 < e + 1"
    by (rule pow2_less_cancel)
  then have e_bounds: "0 \<le> e" "e \<le> 52"
    using \<open>e < 53\<close> by simp_all
  define q where "q = max e (- 1022) - 52"
  have q_eq: "q = - int (nat (52 - e))"
    using e_bounds by (simp add: q_def)
  have pq: "(2::rat) powi q = 1 / 2 ^ nat (52 - e)"
    unfolding q_eq by (simp only: power_int_minus_divide power_int_of_nat)
  have "x / 2 powi q = of_int (int n * 2 ^ nat (52 - e))"
    by (simp add: pq x_def)
  then have "round_half_even (x / 2 powi q) = int n * 2 ^ nat (52 - e)"
    by (simp only: round_half_even_of_int)
  then have v: "of_int (round_half_even (x / 2 powi q)) * 2 powi q = x"
    by (simp add: pq x_def)
  have "x < overflow_threshold"
    using \<open>x < 2 ^ 53\<close> by (simp add: overflow_threshold_def)
  then show ?thesis
    unfolding x_def [symmetric] round_double_pos [OF pos] e_def [symmetric] q_def [symmetric] v
    by simp
qed

lemma round_double_one: "round_double 1 = Finite 1"
  using round_double_of_nat [of 1] by simp

subsection \<open>The arithmetic of calculateDimensions\<close>

text \<open>The scale of the second step lies between 0 and 1; \<open>Math.round\<close> keeps an integer
  bound; so each step keeps a width or a height under an integer bound that is a double.\<close>

lemma scale_down:
  assumes "500 < h"
  shows "\<exists>s. ddiv (Finite 500) (Finite h) = Finite s \<and> 0 \<le> s \<and> s \<le> 1"
proof -
  have "500 / h \<le> 1" "0 \<le> 500 / h"
    using assms by simp_all
  then have "dle (round_double (500 / h)) (Finite 1)" "dle (Finite 0) (round_double (500 / h))"
    using round_double_upper [of 1 "500 / h"] round_double_nonneg [of "500 / h"]
    by (simp_all add: round_double_one)
  then have "\<exists>s. round_double (500 / h) = Finite s \<and> 0 \<le> s \<and> s \<le> 1"
    by (cases "round_double (500 / h)") simp_all
  then show ?thesis
    using assms by simp
qed

lemma Math_round_upper:
  assumes "dle d (Finite (of_int z))"
  shows "dle (Math_round d) (Finite (of_int z))"
  using assms by (cases d) (simp_all add: floor_le_iff)

lemma width_step:
  assumes h: "500 < h" and a: "a \<le> of_int z" and z: "0 \<le> z"
    and c: "round_double (of_int z) = Finite (of_int z)"
  shows "dle (Math_round (dmul (Finite a) (ddiv (Finite 500) (Finite h)))) (Finite (of_int z))"
proof -
  obtain s where s: "ddiv (Finite 500) (Finite h) = Finite s" "0 \<le> s" "s \<le> 1"
    using scale_down [OF h] by blast
  have "a * s \<le> of_int z"
  proof (cases "0 \<le> a")
    case True
    with s(3) have "a * s \<le> a * 1"
      by (intro mult_left_mono)
    with a show ?thesis by simp
  next
    case False
    then have "a * s \<le> 0"
      using s(2) by (intro mult_nonpos_nonneg) simp_all
    also have "(0::rat) \<le> of_int z"
      using z by simp
    finally show ?thesis .
  qed
  then have "dle (round_double (a * s)) (Finite (of_int z))"
    using z c by (intro round_double_upper) simp_all
  then show ?thesis
    unfolding s(1) by (intro Math_round_upper) simp
qed

lemma height_step:
  assumes W: "0 < W" "m < W" and H: "H = of_int b" "0 < b"
    and c: "round_double H = Finite H"
  shows "dle (Math_round (dmul (Finite H) (ddiv (Finite m) (Finite W)))) (Finite H)"
proof -
  have Hpos: "0 < H"
    using H by simp
  have "m / W \<le> 1"
    using W by simp
  then have s1: "dle (round_double (m / W)) (Finite 1)"
    using round_double_upper [of 1 "m / W"] by (simp add: round_double_one)
  have "dle (dmul (Finite H) (round_double (m / W))) (Finite H)"
  proof (cases "round_double (m / W)")
    case (Finite s)
    with s1 have "s \<le> 1" by simp
    with Hpos have "H * s \<le> H * 1"
      by (intro mult_left_mono) simp_all
    then have "dle (round_double (H * s)) (Finite H)"
      using Hpos c by (intro round_double_upper) simp_all
    with Finite show ?thesis by simp
  next
    case PosInfinity
    with s1 show ?thesis by simp
  next
    case NegInfinity
    with Hpos show ?thesis by simp
  next
    case NaN
    with s1 show ?thesis by simp
  qed
  then have "dle (Math_round (dmul (Finite H) (round_double (m / W)))) (Finite H)"
    unfolding H(1) by (rule Math_round_upper)
  then show ?thesis
    using W by simp
qed

text \<open>The state \<open>dimensions\<close> is \<open>null\<close> or holds the natural size of an image, whatever
  the effect and the \<open>onLoad\<close> handler do to it.\<close>

lemma dimensions_natural:
  assumes "dimensions = None
           \<or> (\<exists>nw nh. dimensions = Some \<lparr> dim_width = of_nat nw, dim_height = of_nat nh \<rparr>)"
  shows "LazyImage_onLoad src img dimensions = None
           \<or> (\<exists>nw nh. LazyImage_onLoad src img dimensions
                  = Some \<lparr> dim_width = of_nat nw, dim_height = of_nat nh \<rparr>)"
    and "LazyImage_effect src imageRef dimensions = None
           \<or> (\<exists>nw nh. LazyImage_effect src imageRef dimensions
                  = Some \<lparr> dim_width = of_nat nw, dim_height = of_nat nh \<rparr>)"
  using assms by (auto simp: LazyImage_onLoad_def LazyImage_effect_def split: option.split)

lemma or_200_natural:
  assumes "dimensions = None \<or> dimensions = Some \<lparr> dim_width = of_nat nw, dim_height = of_nat nh \<rparr>"
  shows "or_200 (map_option dim_width dimensions)
           = (if dimensions = None \<or> nw = 0 then 200 else of_nat nw)"
    and "or_200 (map_option dim_height dimensions)
           = (if dimensions = None \<or> nh = 0 then 200 else of_nat nh)"
  using assms by auto

lemma default_size:
  fixes c :: bool and n :: nat
  assumes "n < 2 ^ 32"
  defines "x \<equiv> (if c \<or> n = 0 then 200 else of_nat n :: rat)"
  shows "\<exists>k. 0 < k \<and> x = of_int k" and "round_double x = Finite x"
proof -
  define k where "k = (if c \<or> n = 0 then 200 else n)"
  have x: "x = of_nat k"
    by (simp add: x_def k_def)
  have "0 < k"
    by (simp add: k_def)
  then show "\<exists>k. 0 < k \<and> x = of_int k"
    unfolding x by (intro exI [of _ "int k"]) simp
  have "n < 2 ^ 53"
    using assms(1) by (rule less_trans) simp
  then have "k < 2 ^ 53"
    by (simp add: k_def)
  then show "round_double x = Finite x"
    unfolding x by (rule round_double_of_nat)
qed

lemma svg_size_bounds:
  fixes W H m :: rat
  assumes W: "W = of_int a" "0 < a" "round_double W = Finite W"
    and H: "H = of_int b" "0 < b" "round_double H = Finite H"
  defines "h1 \<equiv> Math_round (dmul (Finite H) (ddiv (Finite m) (Finite W)))"
  defines "r \<equiv>
     (if W \<le> m
      then (if H \<le> 500 then (Finite W, Finite H)
            else (Math_round (dmul (Finite W) (ddiv (Finite 500) (Finite H))), Finite 500))
      else if dgt h1 (Finite 500)
      then (Math_round (dmul (Finite m) (ddiv (Finite 500) h1)), Finite 500)
      else (Finite m, h1))"
  shows "dle (snd r) (Finite 500)" and "dle (fst r) (Finite W)" and "dle (snd r) (Finite H)"
    and "m \<in> \<int> \<Longrightarrow> 1 \<le> m \<Longrightarrow> round_double m = Finite m \<Longrightarrow> dle (fst r) (Finite m)"
proof -
  have Wpos: "0 < W" and Hpos: "0 < H"
    using W H by simp_all
  have a0: "0 \<le> a"
    using W(2) by simp
  have cW: "round_double (of_int a) = Finite (of_int a)"
    using W(1,3) by simp
  have h1_H: "dle h1 (Finite H)" if "m < W"
    unfolding h1_def using Wpos that H by (rule height_step)
  have h1_cases: "\<exists>h. h1 = Finite h \<and> 500 < h \<and> h \<le> H" if "m < W" "dgt h1 (Finite 500)"
    using h1_H [OF that(1)] that(2) by (cases h1) simp_all
  have h1_small: "dle h1 (Finite 500)" if "m < W" "\<not> dgt h1 (Finite 500)"
    using h1_H [OF that(1)] that(2) by (cases h1) simp_all
  have keep_W: "dle (Math_round (dmul (Finite W) (ddiv (Finite 500) (Finite H)))) (Finite W)"
    if "500 < H"
    unfolding W(1) using that a0 cW by (intro width_step) simp_all
  have shrink_W: "dle (Math_round (dmul (Finite m) (ddiv (Finite 500) h1))) (Finite W)"
    if mW: "m < W" and g: "dgt h1 (Finite 500)"
  proof -
    obtain h where h: "h1 = Finite h" "500 < h"
      using h1_cases [OF mW g] by blast
    show ?thesis
      unfolding W(1) h(1) using h(2) a0 cW mW by (intro width_step) (simp_all add: W(1))
  qed
  show "dle (snd r) (Finite 500)"
    using h1_small by (auto simp: r_def not_le)
  show "dle (fst r) (Finite W)"
    using keep_W shrink_W by (auto simp: r_def not_le)
  show "dle (snd r) (Finite H)"
  proof -
    have "500 \<le> H" if "m < W" "dgt h1 (Finite 500)"
      using h1_cases [OF that] by auto
    then show ?thesis
      using h1_H by (auto simp: r_def not_le)
  qed
  show "dle (fst r) (Finite m)"
    if "m \<in> \<int>" "1 \<le> m" and cm: "round_double m = Finite m"
  proof -
    from that(1) obtain z where z: "m = of_int z"
      by (auto elim: Ints_cases)
    with that(2) have z0: "0 \<le> z"
      by simp
    have cz: "round_double (of_int z) = Finite (of_int z)"
      using cm by (simp add: z)
    have 1: "dle (Math_round (dmul (Finite W) (ddiv (Finite 500) (Finite H)))) (Finite m)"
      if "500 < H" "W \<le> m"
      unfolding z using that z0 cz by (intro width_step) (simp_all add: z)
    have 2: "dle (Math_round (dmul (Finite m) (ddiv (Finite 500) h1))) (Finite m)"
      if mW: "m < W" and g: "dgt h1 (Finite 500)"
    proof -
      obtain h where h: "h1 = Finite h" "500 < h"
        using h1_cases [OF mW g] by blast
      show ?thesis
        unfolding h(1) using h(2) z0 cz by (subst (2) z, subst (1) z, intro width_step) simp_all
    qed
    show ?thesis
      using 1 2 by (auto simp: r_def not_le)
  qed
qed

text \<open>The roundings that the two examples below go through, each settled by its exponent
  and its nearest integer.\<close>

lemma floor_numeral_div_rat:
  "\<lfloor>(numeral a :: rat) / numeral b\<rfloor> = numeral a div numeral b"
  using floor_divide_of_int_eq [of "numeral a" "numeral b", where ?'a = rat] by simp

lemma isSVG_example: "isSVG ''diagram.svg''"
  by (simp add: isSVG_def endsWith_def toLowerCase_def lower_char_def)

lemma round_double_quarter: "round_double (1 / 4) = Finite (1 / 4)"
  using round_double_certificate [of "- 2" "1 / 4" "- 54" 4503599627370496]
  by (simp add: overflow_threshold_def)

lemma round_double_501: "round_double 501 = Finite 501"
  using round_double_of_nat [of 501] by simp

lemma round_double_500_501:
  "round_double (500 / 501) = Finite (4494610406557381 / 4503599627370496)"
  using round_double_certificate [of "- 1" "500 / 501" "- 53" 8989220813114762]
  by (simp add: overflow_threshold_def)

lemma round_double_width:
  "round_double (1811327993842624543 / 18014398509481984)
     = Finite (884437496993469 / 8796093022208)"
  using round_double_certificate
    [of 6 "1811327993842624543 / 18014398509481984" "- 46" 7075499975947752]
  by (simp add: overflow_threshold_def)

lemma round_double_125_152:
  "round_double (125 / 152) = Finite (7407236229227789 / 9007199254740992)"
  using round_double_certificate [of "- 1" "125 / 152" "- 53" 7407236229227789]
  by (simp add: overflow_threshold_def)

lemma round_double_62:
  "round_double (140737488355327991 / 2251799813685248)
     = Finite (8796093022207999 / 140737488355328)"
  using round_double_certificate
    [of 5 "140737488355327991 / 2251799813685248" "- 47" 8796093022207999]
  by (simp add: overflow_threshold_def)

text \<open>An SVG image of 76 by 608 with \<open>maxWidth\<close> 500: the height is cut to 500 and the
  width becomes \<open>Math.round(76 * (500 / 608))\<close>. The exact product is 62.5; the quotient
  is rounded down to a double, the product is below 62.5, and the width is 62.\<close>

lemma calculateDimensions_example:
  "calculateDimensions ''diagram.svg'' (Some \<lparr> dim_width = 76, dim_height = 608 \<rparr>)
     Inherit Inherit 500
   = \<lparr> st_height = Style_number (Finite 500), st_maxWidth = 500,
       st_width = Style_number (Finite 62) \<rparr>"
  by (simp add: calculateDimensions_def isSVG_example round_double_125_152 round_double_62
      floor_numeral_div_rat)

text \<open>
  C10, as the claim states it, fails: for an SVG image of natural size 403 by 2004 and a
  \<open>maxWidth\<close> of 100.75, a double that is at least 1, the width returned is 101. The width
  is first set to 100.75 and the height to 501; the height is then cut to 500, and the
  width becomes \<open>Math.round(100.75 * (500 / 501))\<close>, which is 101.
\<close>

theorem calculateDimensions_counterexample:
  "isSVG ''diagram.svg''
   \<and> round_double (403 / 4) = Finite (403 / 4)
   \<and> calculateDimensions ''diagram.svg'' (Some \<lparr> dim_width = 403, dim_height = 2004 \<rparr>)
        Inherit Inherit (403 / 4)
      = \<lparr> st_height = Style_number (Finite 500), st_maxWidth = 403 / 4,
          st_width = Style_number (Finite 101) \<rparr>
   \<and> (1::rat) \<le> 403 / 4 \<and> \<not> dle (Finite 101) (Finite (403 / 4))"
  using round_double_certificate [of 6 "403 / 4" "- 46" 7089650975899648]
  by (simp add: calculateDimensions_def isSVG_example round_double_quarter round_double_501
      round_double_500_501 round_double_width overflow_threshold_def floor_numeral_div_rat)

text \<open>
  C10, amended. The state \<open>dimensions\<close> is \<open>null\<close> or the natural size \<open>nw\<close> by \<open>nh\<close> of
  the image, two unsigned 32-bit integers, and \<open>maxWidth\<close> is a double. For an image that
  is not SVG, \<open>calculateDimensions\<close> returns the given \<open>width\<close>, \<open>height\<close> and
  \<open>maxWidth\<close>. For an SVG image it returns numbers: a height of at most 500; a width of
  at most \<open>maxWidth\<close> whenever \<open>maxWidth\<close> is an integer and at least 1; a width and a
  height that are at most the natural ones (each taken as 200 when it is unknown or 0), so
  nothing is scaled up; and they are the natural ones scaled down first to \<open>maxWidth\<close>,
  then to the height 500, each time with \<open>Math.round\<close> of the double product on the other
  side.
\<close>

theorem calculateDimensions_bounds:
  assumes "dimensions = None
           \<or> dimensions = Some \<lparr> dim_width = of_nat nw, dim_height = of_nat nh \<rparr>"
    and "nw < 2 ^ 32" and "nh < 2 ^ 32"
    and "round_double maxWidth = Finite maxWidth"
  shows "(let W = (if dimensions = None \<or> nw = 0 then 200 else of_nat nw);
              H = (if dimensions = None \<or> nh = 0 then 200 else of_nat nh);
              style = calculateDimensions src dimensions width height maxWidth
          in (\<not> isSVG src \<longrightarrow>
                style = \<lparr> st_height = style_of height, st_maxWidth = maxWidth,
                          st_width = style_of width \<rparr>)
           \<and> (isSVG src \<longrightarrow>
                (\<exists>fw fh.
                   style = \<lparr> st_height = Style_number fh, st_maxWidth = maxWidth,
                             st_width = Style_number fw \<rparr>
                   \<and> dle fh (Finite 500)
                   \<and> (maxWidth \<in> \<int> \<and> 1 \<le> maxWidth \<longrightarrow> dle fw (Finite maxWidth))
                   \<and> dle fw (Finite W)
                   \<and> dle fh (Finite H)
                   \<and> (fw, fh) =
                       (if W \<le> maxWidth
                        then (if H \<le> 500 then (Finite W, Finite H)
                              else (Math_round (dmul (Finite W) (ddiv (Finite 500) (Finite H))),
                                    Finite 500))
                        else if dgt (Math_round (dmul (Finite H)
                                       (ddiv (Finite maxWidth) (Finite W)))) (Finite 500)
                        then (Math_round
                                (dmul (Finite maxWidth)
                                   (ddiv (Finite 500)
                                      (Math_round (dmul (Finite H)
                                         (ddiv (Finite maxWidth) (Finite W)))))),
                              Finite 500)
                        else (Finite maxWidth,
                              Math_round (dmul (Finite H)
                                (ddiv (Finite maxWidth) (Finite W))))))))"
proof -
  define W :: rat where "W = (if dimensions = None \<or> nw = 0 then 200 else of_nat nw)"
  define H :: rat where "H = (if dimensions = None \<or> nh = 0 then 200 else of_nat nh)"
  define h1 where "h1 = Math_round (dmul (Finite H) (ddiv (Finite maxWidth) (Finite W)))"
  define r where "r =
     (if W \<le> maxWidth
      then (if H \<le> 500 then (Finite W, Finite H)
            else (Math_round (dmul (Finite W) (ddiv (Finite 500) (Finite H))), Finite 500))
      else if dgt h1 (Finite 500)
      then (Math_round (dmul (Finite maxWidth) (ddiv (Finite 500) h1)), Finite 500)
      else (Finite maxWidth, h1))"
  obtain a where a: "0 < a" "W = of_int a"
    unfolding W_def using default_size(1) [OF assms(2)] by blast
  obtain b where b: "0 < b" "H = of_int b"
    unfolding H_def using default_size(1) [OF assms(3)] by blast
  have cW: "round_double W = Finite W"
    unfolding W_def using assms(2) by (rule default_size)
  have cH: "round_double H = Finite H"
    unfolding H_def using assms(3) by (rule default_size)
  have W_eq: "or_200 (map_option dim_width dimensions) = W"
    unfolding W_def using assms(1) by (rule or_200_natural)
  have H_eq: "or_200 (map_option dim_height dimensions) = H"
    unfolding H_def using assms(1) by (rule or_200_natural)
  have svg: "calculateDimensions src dimensions width height maxWidth
               = \<lparr> st_height = Style_number (snd r), st_maxWidth = maxWidth,
                   st_width = Style_number (fst r) \<rparr>"
    if "isSVG src"
    using that
    by (simp add: calculateDimensions_def W_eq H_eq r_def h1_def Let_def not_less)
  have bounds: "dle (snd r) (Finite 500)" "dle (fst r) (Finite W)" "dle (snd r) (Finite H)"
    and width: "maxWidth \<in> \<int> \<and> 1 \<le> maxWidth \<longrightarrow> dle (fst r) (Finite maxWidth)"
    unfolding r_def h1_def
    using svg_size_bounds [OF a(2) a(1) cW b(2) b(1) cH, of maxWidth] assms(4)
    by simp_all
  have "isSVG src \<longrightarrow>
          (\<exists>fw fh.
             calculateDimensions src dimensions width height maxWidth
               = \<lparr> st_height = Style_number fh, st_maxWidth = maxWidth,
                   st_width = Style_number fw \<rparr>
             \<and> dle fh (Finite 500)
             \<and> (maxWidth \<in> \<int> \<and> 1 \<le> maxWidth \<longrightarrow> dle fw (Finite maxWidth))
             \<and> dle fw (Finite W)
             \<and> dle fh (Finite H)
             \<and> (fw, fh) = r)"
    using svg bounds width by (intro impI exI [of _ "fst r"] exI [of _ "snd r"]) simp
  moreover have "\<not> isSVG src \<longrightarrow>
          calculateDimensions src dimensions width height maxWidth
            = \<lparr> st_height = style_of height, st_maxWidth = maxWidth,
                st_width = style_of width \<rparr>"
    by (simp add: calculateDimensions_def)
  ultimately show ?thesis
    unfolding Let_def W_def [symmetric] H_def [symmetric] h1_def [symmetric] r_def [symmetric]
    by blast
qed

text \<open>The image of 76 by 608 with \<open>maxWidth\<close> 500 is shown at 62 by 500.\<close>

theorem calculateDimensions_bounds_witness:
  "isSVG ''diagram.svg'' \<and> (500::rat) \<in> \<int> \<and> (1::rat) \<le> 500
   \<and> round_double 500 = Finite 500
   \<and> calculateDimensions ''diagram.svg''
        (Some \<lparr> dim_width = 76, dim_height = 608 \<rparr>) Inherit Inherit 500
       = \<lparr> st_height = Style_number (Finite 500), st_maxWidth = 500,
           st_width = Style_number (Finite 62) \<rparr>
   \<and> dle (Finite 62) (Finite 76) \<and> dle (Finite 62) (Finite 500)"
  using calculateDimensions_bounds
    [of "Some \<lparr> dim_width = 76, dim_height = 608 \<rparr>" 76 608 500
        "''diagram.svg''" Inherit Inherit]
    calculateDimensions_example isSVG_example round_double_of_nat [of 500]
  by (simp add: round_double_125_152 round_double_62 floor_numeral_div_rat)

end
